theory Spec2Isabelle
  imports Complex_Main "HOL-Library.AList"
begin

text \<open>
  A shallow embedding of the orchestration core of the UdaPlay agent: the state machine,
  the memory system, the dedup of the vector store, the retrieval, evaluation and web
  search tools and \<open>process_query\<close>. The first part holds the model, one section per
  source file; the second part holds the properties. External services, the clock and
  the hash functions are parameters gathered in an environment record.
\<close>

section \<open>Common ground: exceptions, files, Python helpers\<close>

text \<open>
  A Python exception is a value carrying the text that \<^verbatim>\<open>str(e)\<close> prints. A function that
  can raise returns \<open>error + 'a\<close>, with \<open>Inl\<close> for the exception.
\<close>

datatype error = Error string

fun str_of :: "error \<Rightarrow> string" where
  "str_of (Error msg) = msg"

text \<open>
  A file on disk: it is absent, holds something \<^verbatim>\<open>json.load\<close> rejects, or holds a document.
  \<open>writable\<close> says whether \<^verbatim>\<open>open(path, "w")\<close> and the dump succeed; \<open>writes\<close> counts the
  completed writes, so that "no write is performed" can be told apart from "the same
  content is written again".
\<close>

datatype 'a content = Absent | Unreadable | Holds 'a

record 'a jfile =
  content :: "'a content"
  writable :: bool
  writes :: nat

definition write_file :: "'a jfile \<Rightarrow> 'a \<Rightarrow> error + 'a jfile" where
  "write_file f doc =
     (if writable f then Inr (f\<lparr>content := Holds doc, writes := Suc (writes f)\<rparr>)
      else Inl (Error ''OSError''))"

text \<open>
  A Python string is modelled as a \<open>string\<close> whose characters are its code points, all
  below 256 (ASCII and Latin-1); text with other code points is outside the model. The
  helpers below are \<^verbatim>\<open>str.lower\<close>, \<^verbatim>\<open>in\<close>, \<^verbatim>\<open>str.split()\<close> and \<^verbatim>\<open>str.strip()\<close> on such
  strings: the capital letters are A to Z and the code points 192 to 222 except 215, and
  the white space is 9 to 13, 28 to 32, 133 and 160.
\<close>

definition lower_char :: "char \<Rightarrow> char" where
  "lower_char c =
     (let n = (of_char c :: nat) in
      if 192 \<le> n \<and> n \<le> 222 \<and> n \<noteq> 215 then char_of (n + 32)
      else (case map_of (zip ''ABCDEFGHIJKLMNOPQRSTUVWXYZ'' ''abcdefghijklmnopqrstuvwxyz'') c of
              None \<Rightarrow> c
            | Some l \<Rightarrow> l))"

definition lower :: "string \<Rightarrow> string" where
  "lower s = map lower_char s"

fun has_prefix :: "string \<Rightarrow> string \<Rightarrow> bool" where
  "has_prefix [] s = True"
| "has_prefix (p # ps) [] = False"
| "has_prefix (p # ps) (c # cs) = (p = c \<and> has_prefix ps cs)"

text \<open>\<open>contains p s\<close> is \<^verbatim>\<open>p in s\<close>.\<close>

fun contains :: "string \<Rightarrow> string \<Rightarrow> bool" where
  "contains p [] = (p = [])"
| "contains p (c # cs) = (has_prefix p (c # cs) \<or> contains p cs)"

text \<open>\<open>any_in ws s\<close> is \<^verbatim>\<open>any(word in s for word in ws)\<close>.\<close>

definition any_in :: "string list \<Rightarrow> string \<Rightarrow> bool" where
  "any_in ws s = list_ex (\<lambda>w. contains w s) ws"

definition is_space :: "char \<Rightarrow> bool" where
  "is_space c =
     (let n = (of_char c :: nat)
      in (9 \<le> n \<and> n \<le> 13) \<or> (28 \<le> n \<and> n \<le> 32) \<or> n = 133 \<or> n = 160)"

fun split_ws :: "string \<Rightarrow> string \<Rightarrow> string list" where
  "split_ws cur [] = (if cur = [] then [] else [cur])"
| "split_ws cur (c # cs) =
     (if is_space c then (if cur = [] then split_ws [] cs else cur # split_ws [] cs)
      else split_ws (cur @ [c]) cs)"

text \<open>\<^verbatim>\<open>s.split()\<close>: the maximal runs of non-space characters.\<close>

definition split :: "string \<Rightarrow> string list" where
  "split s = split_ws [] s"

definition strip :: "string \<Rightarrow> string" where
  "strip s = rev (dropWhile is_space (rev (dropWhile is_space s)))"

text \<open>\<^verbatim>\<open>xs[-n:]\<close> for a positive \<open>n\<close>: the last \<open>n\<close> elements, all of them if there are fewer.\<close>

definition last_n :: "nat \<Rightarrow> 'a list \<Rightarrow> 'a list" where
  "last_n n xs = drop (length xs - n) xs"

text \<open>\<^verbatim>\<open>xs.index(x)\<close> for an \<open>x\<close> that occurs in \<open>xs\<close>.\<close>

fun index_of :: "'a \<Rightarrow> 'a list \<Rightarrow> nat" where
  "index_of x [] = 0"
| "index_of x (y # ys) = (if x = y then 0 else Suc (index_of x ys))"

text \<open>\<^verbatim>\<open>str(n)\<close> for a natural number.\<close>

definition digit_char :: "nat \<Rightarrow> char" where
  "digit_char d = ''0123456789'' ! d"

function str_nat :: "nat \<Rightarrow> string" where
  "str_nat n = (if n < 10 then [digit_char n] else str_nat (n div 10) @ [digit_char (n mod 10)])"
  by pat_completeness auto
termination
  by (relation "measure id") auto

declare str_nat.simps [simp del]

section \<open>The state machine (src/agent/state_machine.py)\<close>

datatype AgentState = IDLE | RETRIEVING | EVALUATING | WEB_SEARCH | ANSWERING

fun state_value :: "AgentState \<Rightarrow> string" where
  "state_value IDLE = ''idle''"
| "state_value RETRIEVING = ''retrieving''"
| "state_value EVALUATING = ''evaluating''"
| "state_value WEB_SEARCH = ''web_search''"
| "state_value ANSWERING = ''answering''"

text \<open>The class attribute \<^verbatim>\<open>_allowed\<close>: the table of allowed targets per state.\<close>

fun allowed :: "AgentState \<Rightarrow> AgentState list" where
  "allowed IDLE = [RETRIEVING]"
| "allowed RETRIEVING = [EVALUATING]"
| "allowed EVALUATING = [WEB_SEARCH, ANSWERING]"
| "allowed WEB_SEARCH = [ANSWERING]"
| "allowed ANSWERING = [IDLE]"

text \<open>
  The machine: its state, the time of the last transition (a \<^verbatim>\<open>datetime\<close>, modelled by the
  ISO text that \<^verbatim>\<open>isoformat()\<close> prints) and the path of the persistence file, \<open>None\<close> until
  one is bound.
\<close>

record AgentStateMachine =
  state :: AgentState
  last_transition_time :: string
  persist_file :: "string option"

text \<open>The JSON document of the persistence file, and the disk: one file per path.\<close>

record state_doc =
  doc_state :: string
  doc_last_transition_time :: string

type_synonym state_disk = "string \<Rightarrow> state_doc jfile"

text \<open>\<^verbatim>\<open>AgentStateMachine()\<close> at clock reading \<open>now\<close>.\<close>

definition init_machine :: "string \<Rightarrow> AgentStateMachine" where
  "init_machine now = \<lparr>state = IDLE, last_transition_time = now, persist_file = None\<rparr>"

text \<open>
  \<^verbatim>\<open>_persist\<close>: nothing happens without a path (\<^verbatim>\<open>not self._persist_file\<close> also holds for
  the empty string); a failing write is logged and swallowed.
\<close>

definition persist_inner :: "AgentStateMachine \<Rightarrow> state_disk \<Rightarrow> state_disk" where
  "persist_inner sm disk =
     (case persist_file sm of
        None \<Rightarrow> disk
      | Some path \<Rightarrow>
          if path = [] then disk
          else (case write_file (disk path)
                       \<lparr>doc_state = state_value (state sm),
                        doc_last_transition_time = last_transition_time sm\<rparr> of
                  Inl e \<Rightarrow> disk
                | Inr f \<Rightarrow> disk(path := f)))"

definition persist :: "AgentStateMachine \<Rightarrow> state_disk \<Rightarrow> state_disk" where
  "persist sm disk = persist_inner sm disk"

text \<open>\<^verbatim>\<open>transition\<close>: the returned boolean, the machine and the disk afterwards.\<close>

definition transition ::
  "AgentStateMachine \<Rightarrow> AgentState \<Rightarrow> string \<Rightarrow> state_disk \<Rightarrow>
     bool \<times> AgentStateMachine \<times> state_disk" where
  "transition sm target now disk =
     (if target \<in> set (allowed (state sm)) then
        (let sm' = sm\<lparr>state := target, last_transition_time := now\<rparr>
         in (True, sm', persist_inner sm' disk))
      else (False, sm, disk))"

definition get_state :: "AgentStateMachine \<Rightarrow> string" where
  "get_state sm = state_value (state sm)"

definition reset :: "AgentStateMachine \<Rightarrow> string \<Rightarrow> state_disk \<Rightarrow> AgentStateMachine \<times> state_disk" where
  "reset sm now disk =
     (let sm' = sm\<lparr>state := IDLE, last_transition_time := now\<rparr>
      in (sm', persist_inner sm' disk))"

definition can_transition :: "AgentStateMachine \<Rightarrow> AgentState \<Rightarrow> bool" where
  "can_transition sm target = (target \<in> set (allowed (state sm)))"

text \<open>The transition relation as the specification lists it.\<close>

definition spec_allowed :: "(AgentState \<times> AgentState) set" where
  "spec_allowed =
     {(IDLE, RETRIEVING), (RETRIEVING, EVALUATING), (EVALUATING, WEB_SEARCH),
      (EVALUATING, ANSWERING), (WEB_SEARCH, ANSWERING), (ANSWERING, IDLE)}"

text \<open>A machine bound to \<open>state.json\<close> on a disk where every write succeeds.\<close>

definition demo_machine :: AgentStateMachine where
  "demo_machine = (init_machine ''t0'')\<lparr>persist_file := Some ''state.json''\<rparr>"

definition demo_disk :: state_disk where
  "demo_disk = (\<lambda>path. \<lparr>content = Absent, writable = True, writes = 0\<rparr>)"

section \<open>The memory system (src/tools/advanced_memory.py)\<close>

text \<open>
  The dictionaries the memory system builds are modelled by records with the keys the
  code writes. A web result and the payload of a web search are read with \<^verbatim>\<open>.get\<close>, so
  their keys are optional: \<open>None\<close> is an absent key.
\<close>

record web_result =
  r_title :: "string option"
  r_url :: "string option"
  r_content :: "string option"
  r_relevance_score :: "real option"
  r_score :: "real option"

record web_payload =
  w_results :: "web_result list option"
  w_total_results :: "int option"
  w_error :: "string option"

record fact =
  f_content :: string
  f_source :: string
  f_title :: string
  f_query :: string
  f_timestamp :: string
  f_relevance_score :: real
  f_fact_type :: string

record preferences =
  genres :: "string list"
  platforms :: "string list"
  publishers :: "string list"
  interests :: "string list"
  last_updated :: string

record pattern =
  query_pattern :: string
  success_count :: nat
  avg_results :: real
  last_success :: "string option"

record interaction =
  i_timestamp :: string
  i_user_query :: string
  i_agent_response :: string
  i_user_id :: string
  i_success_score :: real

record context_item =
  c_timestamp :: string
  c_user_id :: string
  c_user_query :: string
  c_agent_response :: string
  c_context_type :: string

text \<open>The document \<^verbatim>\<open>_save_memory\<close> dumps.\<close>

record memory_doc =
  d_facts :: "string \<rightharpoonup> fact list"
  d_user_preferences :: "string \<rightharpoonup> preferences"
  d_conversation_context :: "context_item list"
  d_learned_patterns :: "string \<rightharpoonup> pattern"
  d_successful_interactions :: "interaction list"
  d_last_updated :: string

record AdvancedMemorySystem =
  memory_file :: "memory_doc jfile"
  facts_memory :: "string \<rightharpoonup> fact list"
  user_preferences :: "string \<rightharpoonup> preferences"
  conversation_context :: "context_item list"
  learned_patterns :: "string \<rightharpoonup> pattern"
  successful_interactions :: "interaction list"

text \<open>\<^verbatim>\<open>_classify_fact_type\<close>\<close>

definition classify_fact_type :: "string \<Rightarrow> string" where
  "classify_fact_type content_text =
     (let content_lower = lower content_text in
      if any_in [''released'', ''launch'', ''came out''] content_lower then ''release_info''
      else if any_in [''genre'', ''type'', ''category''] content_lower then ''genre_info''
      else if any_in [''platform'', ''console'', ''system''] content_lower then ''platform_info''
      else if any_in [''publisher'', ''developer'', ''studio''] content_lower then ''publisher_info''
      else if any_in [''review'', ''rating'', ''score''] content_lower then ''review_info''
      else ''general_info'')"

text \<open>\<^verbatim>\<open>_extract_fact_from_result\<close>; \<open>now\<close> is the clock reading.\<close>

definition extract_fact_from_result :: "string \<Rightarrow> web_result \<Rightarrow> string \<Rightarrow> fact option" where
  "extract_fact_from_result query result now =
     (let content_text = (case r_content result of None \<Rightarrow> [] | Some c \<Rightarrow> c);
          title = (case r_title result of None \<Rightarrow> [] | Some t \<Rightarrow> t)
      in if content_text = [] \<or> length content_text < 50 then None
         else Some \<lparr>f_content = take 300 content_text,
                    f_source = (case r_url result of None \<Rightarrow> [] | Some u \<Rightarrow> u),
                    f_title = title,
                    f_query = query,
                    f_timestamp = now,
                    f_relevance_score = (case r_relevance_score result of None \<Rightarrow> 0.5 | Some x \<Rightarrow> x),
                    f_fact_type = classify_fact_type content_text\<rparr>)"

text \<open>
  The duplicate loop of \<^verbatim>\<open>_store_fact\<close>: the first stored fact with the same content is
  updated with the new fact's keys (all seven, so it becomes the new fact); \<open>None\<close> when
  no stored fact has that content.
\<close>

fun update_existing :: "fact \<Rightarrow> fact list \<Rightarrow> fact list option" where
  "update_existing new_fact [] = None"
| "update_existing new_fact (existing # rest) =
     (if f_content existing = f_content new_fact then Some (new_fact # rest)
      else map_option ((#) existing) (update_existing new_fact rest))"

text \<open>\<^verbatim>\<open>_store_fact\<close>\<close>

definition store_fact :: "AdvancedMemorySystem \<Rightarrow> fact \<Rightarrow> string \<Rightarrow> AdvancedMemorySystem" where
  "store_fact m new_fact user_id =
     (let existing_facts = (case facts_memory m user_id of None \<Rightarrow> [] | Some fs \<Rightarrow> fs) in
      case update_existing new_fact existing_facts of
        Some fs \<Rightarrow> m\<lparr>facts_memory := (facts_memory m)(user_id \<mapsto> fs)\<rparr>
      | None \<Rightarrow>
          (let appended = existing_facts @ [new_fact]
           in m\<lparr>facts_memory := (facts_memory m)(user_id \<mapsto>
                  (if length appended > 50 then last_n 50 appended else appended))\<rparr>))"

text \<open>The preference profile of a user, created empty when there is none.\<close>

definition prefs_of :: "AdvancedMemorySystem \<Rightarrow> string \<Rightarrow> string \<Rightarrow> preferences" where
  "prefs_of m user_id now =
     (case user_preferences m user_id of
        None \<Rightarrow> \<lparr>genres = [], platforms = [], publishers = [], interests = [], last_updated = now\<rparr>
      | Some p \<Rightarrow> p)"

text \<open>One pass of \<^verbatim>\<open>for kw in kws: if kw in text and kw not in xs: xs.append(kw)\<close>.\<close>

definition add_matches :: "string list \<Rightarrow> string \<Rightarrow> string list \<Rightarrow> string list" where
  "add_matches kws text xs =
     fold (\<lambda>kw acc. if contains kw text \<and> kw \<notin> set acc then acc @ [kw] else acc) kws xs"

text \<open>\<^verbatim>\<open>_update_user_preferences\<close>\<close>

definition update_user_preferences ::
  "AdvancedMemorySystem \<Rightarrow> string \<Rightarrow> web_payload \<Rightarrow> string \<Rightarrow> string \<Rightarrow> AdvancedMemorySystem" where
  "update_user_preferences m query results user_id now =
     (let user_prefs = prefs_of m user_id now;
          query_lower = lower query;
          p1 = user_prefs\<lparr>genres := add_matches
                 [''action'', ''rpg'', ''adventure'', ''racing'', ''sports'', ''fighting'',
                  ''puzzle'', ''strategy''] query_lower (genres user_prefs)\<rparr>;
          p2 = p1\<lparr>platforms := add_matches
                 [''playstation'', ''xbox'', ''nintendo'', ''pc'', ''mobile''] query_lower
                 (platforms p1)\<rparr>
      in m\<lparr>user_preferences := (user_preferences m)(user_id \<mapsto> p2\<lparr>last_updated := now\<rparr>)\<rparr>)"

text \<open>
  \<^verbatim>\<open>_learn_search_pattern\<close>; \<open>hash\<close> is Python's \<^verbatim>\<open>hash\<close> on strings, a parameter. Python's
  \<^verbatim>\<open>%\<close> with a positive modulus is never negative, as \<open>mod\<close> on \<open>int\<close>.
\<close>

definition learn_search_pattern ::
  "AdvancedMemorySystem \<Rightarrow> string \<Rightarrow> web_payload \<Rightarrow> string \<Rightarrow> (string \<Rightarrow> int) \<Rightarrow>
     AdvancedMemorySystem" where
  "learn_search_pattern m query results now hash =
     (let pattern_key = ''search_pattern_'' @ str_nat (nat (hash query mod 1000));
          pat = (case learned_patterns m pattern_key of
                   None \<Rightarrow> \<lparr>query_pattern = query, success_count = 0, avg_results = 0,
                             last_success = None\<rparr>
                 | Some p \<Rightarrow> p);
          total = (case w_total_results results of None \<Rightarrow> 0 | Some n \<Rightarrow> n)
      in m\<lparr>learned_patterns := (learned_patterns m)(pattern_key \<mapsto>
             pat\<lparr>success_count := success_count pat + 1,
                  avg_results := (avg_results pat + real_of_int total) / 2,
                  last_success := Some now\<rparr>)\<rparr>)"

text \<open>\<^verbatim>\<open>_save_memory\<close>: a failing write is logged and swallowed.\<close>

definition save_memory :: "AdvancedMemorySystem \<Rightarrow> string \<Rightarrow> AdvancedMemorySystem" where
  "save_memory m now =
     (case write_file (memory_file m)
             \<lparr>d_facts = facts_memory m,
              d_user_preferences = user_preferences m,
              d_conversation_context = conversation_context m,
              d_learned_patterns = learned_patterns m,
              d_successful_interactions = successful_interactions m,
              d_last_updated = now\<rparr> of
        Inl e \<Rightarrow> m
      | Inr f \<Rightarrow> m\<lparr>memory_file := f\<rparr>)"

text \<open>The loop of \<^verbatim>\<open>learn_from_web_search\<close> over the results.\<close>

definition store_results ::
  "AdvancedMemorySystem \<Rightarrow> string \<Rightarrow> web_result list \<Rightarrow> string \<Rightarrow> string \<Rightarrow> AdvancedMemorySystem" where
  "store_results m query rs user_id now =
     fold (\<lambda>result acc.
             case extract_fact_from_result query result now of
               None \<Rightarrow> acc
             | Some new_fact \<Rightarrow> store_fact acc new_fact user_id) rs m"

text \<open>\<^verbatim>\<open>learn_from_web_search\<close>\<close>

definition learn_from_web_search ::
  "AdvancedMemorySystem \<Rightarrow> string \<Rightarrow> web_payload \<Rightarrow> string \<Rightarrow> string \<Rightarrow> (string \<Rightarrow> int) \<Rightarrow>
     AdvancedMemorySystem" where
  "learn_from_web_search m query results user_id now hash =
     (case w_results results of
        None \<Rightarrow> m
      | Some rs \<Rightarrow>
          if rs = [] then m
          else
            (let m1 = store_results m query rs user_id now;
                 m2 = update_user_preferences m1 query results user_id now;
                 m3 = (if (case w_total_results results of None \<Rightarrow> 0 | Some n \<Rightarrow> n) > 0
                       then learn_search_pattern m2 query results now hash else m2)
             in save_memory m3 now))"

text \<open>
  The score of \<^verbatim>\<open>_calculate_success_score\<close> is a sum of binary floating point numbers. A
  float is modelled by the real number it is; \<open>float_add\<close> is the sum of two floats, the
  exact sum rounded to the nearest float with 53 bits, ties to even, for a sum in
  [1/2, 2), where the score lies. \<open>float_0_2\<close> and \<open>float_0_1\<close> are the floats that the
  literals \<^verbatim>\<open>0.2\<close> and \<^verbatim>\<open>0.1\<close> denote; 0.5 and 1.0 are floats themselves.
\<close>

definition round_half_even :: "real \<Rightarrow> int" where
  "round_half_even x =
     (let f = \<lfloor>x\<rfloor>; d = x - of_int f in
      if d < 1 / 2 then f else if 1 / 2 < d then f + 1 else if even f then f else f + 1)"

definition float_add :: "real \<Rightarrow> real \<Rightarrow> real" where
  "float_add x y =
     (let s = x + y; ulp = (if s < 1 then 1 / 2 ^ 53 else 1 / 2 ^ 52)
      in of_int (round_half_even (s / ulp)) * ulp)"

definition float_0_2 :: real where
  "float_0_2 = 3602879701896397 / 18014398509481984"

definition float_0_1 :: real where
  "float_0_1 = 3602879701896397 / 36028797018963968"

text \<open>\<^verbatim>\<open>_calculate_success_score\<close>\<close>

definition calculate_success_score :: "string \<Rightarrow> real" where
  "calculate_success_score response =
     (let s0 = 0.5;
          s1 = (if length response > 100 then float_add s0 float_0_2 else s0);
          s2 = (if any_in [''game'', ''platform'', ''genre'', ''publisher''] (lower response)
                then float_add s1 float_0_2 else s1);
          s3 = (if any_in [''definitely'', ''certainly'', ''specifically''] (lower response)
                then float_add s2 float_0_1 else s2)
      in min 1.0 s3)"

text \<open>The body of the keyword loop of \<^verbatim>\<open>_extract_preferences_from_conversation\<close>.\<close>

definition add_interest :: "string \<Rightarrow> string \<Rightarrow> string list \<Rightarrow> string list" where
  "add_interest query_lower keyword ints =
     (if contains keyword query_lower then
        (let ws = split query_lower in
         if keyword \<in> set ws then
           (let keyword_index = index_of keyword ws in
            if keyword_index + 1 < length ws then
              (let interest = ws ! (keyword_index + 1)
               in if interest \<notin> set ints then ints @ [interest] else ints)
            else ints)
         else ints)
      else ints)"

text \<open>\<^verbatim>\<open>_extract_preferences_from_conversation\<close>\<close>

definition extract_preferences_from_conversation ::
  "AdvancedMemorySystem \<Rightarrow> string \<Rightarrow> string \<Rightarrow> string \<Rightarrow> AdvancedMemorySystem" where
  "extract_preferences_from_conversation m user_query user_id now =
     (let user_prefs = prefs_of m user_id now;
          query_lower = lower user_query
      in m\<lparr>user_preferences := (user_preferences m)(user_id \<mapsto>
             user_prefs\<lparr>interests :=
               fold (add_interest query_lower)
                 [''like'', ''love'', ''enjoy'', ''favorite'', ''prefer'']
                 (interests user_prefs)\<rparr>)\<rparr>)"

text \<open>\<^verbatim>\<open>_update_conversation_context\<close>\<close>

definition update_conversation_context ::
  "AdvancedMemorySystem \<Rightarrow> string \<Rightarrow> string \<Rightarrow> string \<Rightarrow> string \<Rightarrow> AdvancedMemorySystem" where
  "update_conversation_context m user_query agent_response user_id now =
     (let appended = conversation_context m @
            [\<lparr>c_timestamp = now, c_user_id = user_id, c_user_query = user_query,
              c_agent_response = take 100 agent_response, c_context_type = ''conversation''\<rparr>]
      in m\<lparr>conversation_context :=
             (if length appended > 50 then last_n 50 appended else appended)\<rparr>)"

text \<open>\<^verbatim>\<open>learn_from_conversation\<close>\<close>

definition learn_from_conversation ::
  "AdvancedMemorySystem \<Rightarrow> string \<Rightarrow> string \<Rightarrow> string \<Rightarrow> string \<Rightarrow> AdvancedMemorySystem" where
  "learn_from_conversation m user_query agent_response user_id now =
     (let appended = successful_interactions m @
            [\<lparr>i_timestamp = now, i_user_query = user_query,
              i_agent_response = take 200 agent_response, i_user_id = user_id,
              i_success_score = calculate_success_score agent_response\<rparr>];
          m1 = m\<lparr>successful_interactions :=
                  (if length appended > 100 then last_n 100 appended else appended)\<rparr>;
          m2 = extract_preferences_from_conversation m1 user_query user_id now;
          m3 = update_conversation_context m2 user_query agent_response user_id now
      in save_memory m3 now)"

text \<open>The bounds of the specification on the sequences of the memory system.\<close>

definition within_bounds :: "AdvancedMemorySystem \<Rightarrow> bool" where
  "within_bounds m \<longleftrightarrow>
     (\<forall>user_id fs. facts_memory m user_id = Some fs \<longrightarrow> length fs \<le> 50) \<and>
     length (conversation_context m) \<le> 50 \<and>
     length (successful_interactions m) \<le> 100"

text \<open>Inserting a list of facts for one user, oldest first.\<close>

definition store_facts :: "AdvancedMemorySystem \<Rightarrow> fact list \<Rightarrow> string \<Rightarrow> AdvancedMemorySystem" where
  "store_facts m facts user_id = fold (\<lambda>new_fact acc. store_fact acc new_fact user_id) facts m"

text \<open>A fresh memory system whose file does not exist yet and can be written.\<close>

definition empty_memory :: AdvancedMemorySystem where
  "empty_memory =
     \<lparr>memory_file = \<lparr>content = Absent, writable = True, writes = 0\<rparr>,
      facts_memory = Map.empty, user_preferences = Map.empty, conversation_context = [],
      learned_patterns = Map.empty, successful_interactions = []\<rparr>"

section \<open>The vector store (src/database/vector_store.py)\<close>

record game =
  g_name :: string
  g_platform :: string
  g_genre :: string
  g_publisher :: string
  g_description :: string
  g_year_of_release :: int

text \<open>
  The metadata of an ingested document, a dictionary. The title and the URL are read with
  \<^verbatim>\<open>.get(key) or ""\<close>, for which an absent key and the value \<^verbatim>\<open>None\<close> are the same: both are
  \<open>None\<close> here. The ingestion time and the snippet are set with \<^verbatim>\<open>setdefault\<close>, which fills
  an absent key only, so these two keep the difference.
\<close>

datatype 'a slot = Missing | Null | Val 'a

record metadata =
  md_title :: "string option"
  md_url :: "string option"
  md_source :: "string option"
  md_relevance_score :: "real option"
  md_ingested_at :: "string slot"
  md_snippet :: "string slot"

text \<open>
  The metadata of a collection entry either validates as a \<^verbatim>\<open>Game\<close> (an entry of
  \<^verbatim>\<open>add_game\<close>) or is the dictionary of an ingested document.
\<close>

datatype entry_meta = GameMeta game | DocMeta metadata

record index_entry =
  ix_id :: string
  ix_ingested_at :: string
  ix_title :: string
  ix_url :: string

record backup_doc =
  b_content :: string
  b_metadata :: metadata

text \<open>
  The store: the collection of the search backend (identifier, document, metadata, in the
  order they were added), the dedup index file \<^verbatim>\<open>ingested_index.json\<close> and the backup
  files \<^verbatim>\<open>documents/<id>.json\<close>, by identifier.
\<close>

record GameVectorStore =
  persist_directory :: string
  collection :: "(string \<times> string \<times> entry_meta) list"
  ingested_index :: "(string \<times> index_entry) list jfile"
  documents :: "string \<Rightarrow> backup_doc jfile"

text \<open>
  A value of a search hit, and the answer of the backend to a query: the documents, the
  distances and the metadata of the first (only) query text.
\<close>

datatype hit_value = HStr string | HInt int | HNum real | HNone | HGame game

type_synonym hit = "(string \<times> hit_value) list"

record query_result =
  q_documents :: "string list"
  q_distances :: "real list"
  q_metadatas :: "entry_meta list"

text \<open>A floating point number: finite, or one of \<^verbatim>\<open>nan\<close>, \<^verbatim>\<open>inf\<close>, \<^verbatim>\<open>-inf\<close>.\<close>

datatype pyfloat = Finite real | NotFinite

text \<open>What the judging model answers, as parsed JSON: each key may be missing.\<close>

record raw_evaluation =
  re_useful :: "bool option"
  re_description :: "string option"
  re_confidence :: "real option"
  re_recommendation :: "string option"

text \<open>What the web search provider answers.\<close>

record provider_result =
  pr_title :: "string option"
  pr_url :: "string option"
  pr_content :: "string option"
  pr_score :: "real option"

record provider_response =
  pr_results :: "provider_result list option"
  pr_answer :: "string option"

text \<open>
  The environment of a call: the clock (\<open>env_now\<close> the ISO text, \<open>env_time_ms\<close> the
  milliseconds of \<^verbatim>\<open>time.time()\<close>; every reading during one call is this one), the hash
  functions, and the external services, each of which may raise: the search backend
  (query and add), the judging model, the web search provider, the answering model
  (given the question, the games, the title, URL and content prefix of the web results
  and the evaluation's description, from which the prompt is built), and \<^verbatim>\<open>float()\<close> on a
  token (\<open>None\<close> is a \<^verbatim>\<open>ValueError\<close>).
\<close>

record env =
  env_now :: string
  env_time_ms :: nat
  env_sha256 :: "string \<Rightarrow> string"
  env_hash :: "string \<Rightarrow> int"
  env_query :: "(string \<times> string \<times> entry_meta) list \<Rightarrow> string \<Rightarrow> nat \<Rightarrow> error + query_result"
  env_add_fails :: "string \<Rightarrow> bool"
  env_judge :: "string \<Rightarrow> game list \<Rightarrow> error + raw_evaluation"
  env_provider :: "string \<Rightarrow> nat \<Rightarrow> error + provider_response"
  env_answer ::
    "string \<Rightarrow> game list \<Rightarrow> (string \<times> string \<times> string) list \<Rightarrow> string \<Rightarrow> error + string option"
  env_float :: "string \<Rightarrow> pyfloat option"

text \<open>\<^verbatim>\<open>x or ""\<close> for an optional string.\<close>

definition or_empty :: "string option \<Rightarrow> string" where
  "or_empty x = (case x of None \<Rightarrow> [] | Some s \<Rightarrow> s)"

text \<open>
  The hit that \<^verbatim>\<open>search_games\<close> builds from one entry. Game metadata is dumped by alias;
  other metadata is used as it is and has none of the keys looked up. The dictionary has
  no key \<^verbatim>\<open>game\<close>.
\<close>

definition make_hit :: "nat \<Rightarrow> string \<Rightarrow> real \<Rightarrow> entry_meta \<Rightarrow> hit" where
  "make_hit i doc distance md =
     (case md of
        GameMeta g \<Rightarrow>
          [(''Name'', HStr (g_name g)), (''Platform'', HStr (g_platform g)),
           (''Genre'', HStr (g_genre g)), (''Publisher'', HStr (g_publisher g)),
           (''Description'', HStr (g_description g)),
           (''YearOfRelease'', if g_year_of_release g = 0 then HNone else HInt (g_year_of_release g)),
           (''content'', HStr doc), (''distance'', HNum distance),
           (''similarity_score'', HNum (1 - distance)), (''rank'', HInt (int i + 1))]
      | DocMeta d \<Rightarrow>
          [(''Name'', HStr []), (''Platform'', HStr []), (''Genre'', HStr []),
           (''Publisher'', HStr []), (''Description'', HStr []), (''YearOfRelease'', HNone),
           (''content'', HStr doc), (''distance'', HNum distance),
           (''similarity_score'', HNum (1 - distance)), (''rank'', HInt (int i + 1))])"

fun make_hits :: "nat \<Rightarrow> string list \<Rightarrow> real list \<Rightarrow> entry_meta list \<Rightarrow> hit list" where
  "make_hits i (doc # docs) (distance # distances) (md # mds) =
     make_hit i doc distance md # make_hits (Suc i) docs distances mds"
| "make_hits i docs distances mds = []"

text \<open>\<^verbatim>\<open>search_games\<close>: a failure of the backend is logged and gives the empty list.\<close>

definition search_games :: "env \<Rightarrow> GameVectorStore \<Rightarrow> string \<Rightarrow> nat \<Rightarrow> hit list" where
  "search_games w vs query n_results =
     (case env_query w (collection vs) query n_results of
        Inl e \<Rightarrow> []
      | Inr results \<Rightarrow>
          if q_documents results \<noteq> [] then
            make_hits 0 (q_documents results) (q_distances results) (q_metadatas results)
          else [])"

text \<open>The dedup key of \<^verbatim>\<open>add_document\<close>, from the content and the enriched metadata.\<close>

definition dup_key_of :: "env \<Rightarrow> string \<Rightarrow> metadata \<Rightarrow> string" where
  "dup_key_of w content_text md =
     (let url = strip (or_empty (md_url md));
          title = strip (or_empty (md_title md));
          dup_raw = (if url \<noteq> [] \<or> title \<noteq> [] then url @ ''|'' @ title
                     else take 200 content_text)
      in env_sha256 w dup_raw)"

text \<open>The index \<^verbatim>\<open>add_document\<close> reads: empty when the file is absent or unreadable.\<close>

definition seen_index :: "GameVectorStore \<Rightarrow> (string \<times> index_entry) list" where
  "seen_index vs = (case content (ingested_index vs) of Holds idx \<Rightarrow> idx | _ \<Rightarrow> [])"

text \<open>
  The enrichment of the metadata in \<^verbatim>\<open>add_document\<close> (\<^verbatim>\<open>setdefault\<close> of the ingestion
  time and of the snippet), and the identifier of the document when none is given.
\<close>

definition enrich_metadata :: "string \<Rightarrow> string \<Rightarrow> metadata \<Rightarrow> metadata" where
  "enrich_metadata timestamp content_text md =
     md\<lparr>md_ingested_at := (case md_ingested_at md of Missing \<Rightarrow> Val timestamp | present \<Rightarrow> present),
        md_snippet := (case md_snippet md of Missing \<Rightarrow> Val (take 500 content_text)
                       | present \<Rightarrow> present)\<rparr>"

definition new_doc_id :: "env \<Rightarrow> string option \<Rightarrow> string" where
  "new_doc_id w doc_id = (case doc_id of None \<Rightarrow> ''doc_'' @ str_nat (env_time_ms w) | Some i \<Rightarrow> i)"

text \<open>
  \<^verbatim>\<open>add_document\<close>: the returned boolean and the store afterwards. A failure of
  \<^verbatim>\<open>collection.add\<close> is caught by the outer handler; the two file writes have handlers of
  their own.
\<close>

definition add_document ::
  "env \<Rightarrow> GameVectorStore \<Rightarrow> string \<Rightarrow> metadata \<Rightarrow> string option \<Rightarrow> bool \<times> GameVectorStore" where
  "add_document w vs content_text md doc_id =
     (let timestamp = env_now w;
          metadata_enriched = enrich_metadata timestamp content_text md;
          url = strip (or_empty (md_url metadata_enriched));
          title = strip (or_empty (md_title metadata_enriched));
          dup_key = dup_key_of w content_text metadata_enriched;
          seen = seen_index vs
      in if dup_key \<in> fst ` set seen then (False, vs)
         else
           (let new_id = new_doc_id w doc_id
            in if env_add_fails w new_id then (False, vs)
               else
                 (let vs1 = vs\<lparr>collection := collection vs @
                              [(new_id, content_text, DocMeta metadata_enriched)]\<rparr>;
                      seen1 = AList.update dup_key
                                \<lparr>ix_id = new_id, ix_ingested_at = timestamp, ix_title = title,
                                 ix_url = url\<rparr> seen;
                      vs2 = (case write_file (ingested_index vs1) seen1 of
                               Inl e \<Rightarrow> vs1
                             | Inr f \<Rightarrow> vs1\<lparr>ingested_index := f\<rparr>);
                      vs3 = (case write_file (documents vs2 new_id)
                                    \<lparr>b_content = content_text, b_metadata = metadata_enriched\<rparr> of
                               Inl e \<Rightarrow> vs2
                             | Inr f \<Rightarrow> vs2\<lparr>documents := (documents vs2)(new_id := f)\<rparr>)
                  in (True, vs3))))"

text \<open>
  An environment for the examples: the clock stands at \<open>t1\<close>, the hash functions are the
  identity and the constant 0, the backend finds nothing, and the other services are down.
\<close>

definition demo_env :: env where
  "demo_env =
     \<lparr>env_now = ''t1'', env_time_ms = 1700000000000, env_sha256 = (\<lambda>s. s), env_hash = (\<lambda>s. 0),
      env_query = (\<lambda>c q n. Inr \<lparr>q_documents = [], q_distances = [], q_metadatas = []\<rparr>),
      env_add_fails = (\<lambda>i. False),
      env_judge = (\<lambda>q gs. Inl (Error ''judge unavailable'')),
      env_provider = (\<lambda>q n. Inl (Error ''provider unavailable'')),
      env_answer = (\<lambda>q gs ws d. Inl (Error ''model unavailable'')),
      env_float = (\<lambda>s. None)\<rparr>"

text \<open>An empty store whose files can be written.\<close>

definition demo_store :: GameVectorStore where
  "demo_store =
     \<lparr>persist_directory = ''./chromadb'', collection = [],
      ingested_index = \<lparr>content = Absent, writable = True, writes = 0\<rparr>,
      documents = (\<lambda>i. \<lparr>content = Absent, writable = True, writes = 0\<rparr>)\<rparr>"

text \<open>The same store with an index file that cannot be written.\<close>

definition locked_store :: GameVectorStore where
  "locked_store =
     demo_store\<lparr>ingested_index := \<lparr>content = Absent, writable = False, writes = 0\<rparr>\<rparr>"

text \<open>The metadata of a web document.\<close>

definition demo_metadata :: metadata where
  "demo_metadata =
     \<lparr>md_title = Some ''Mock Game Page'', md_url = Some ''https://example.com/mock-game'',
      md_source = None, md_relevance_score = None, md_ingested_at = Missing,
      md_snippet = Missing\<rparr>"

section \<open>The tools (src/tools/retrieve_game.py, evaluate_retrieval.py, game_web_search.py)\<close>

text \<open>
  A tool returns a JSON text that its caller parses again; the model passes the value the
  text denotes. Keys that one envelope has and another lacks are optional fields.
\<close>

record retrieval_envelope =
  e_games :: "game list option"
  e_query :: string
  e_total_results :: nat
  e_confidence_score :: real
  e_search_method :: string
  e_message :: "string option"
  e_error :: "string option"

text \<open>\<^verbatim>\<open>result[key]\<close> on a hit: a missing key raises \<^verbatim>\<open>KeyError\<close>, whose text is the quoted key.\<close>

definition hit_lookup :: "hit \<Rightarrow> string \<Rightarrow> error + hit_value" where
  "hit_lookup h k =
     (case map_of h k of
        None \<Rightarrow> Inl (Error ([CHR 0x27] @ k @ [CHR 0x27]))
      | Some v \<Rightarrow> Inr v)"

text \<open>A comprehension whose body may raise: the first exception ends it.\<close>

fun collect :: "('a \<Rightarrow> error + 'b) \<Rightarrow> 'a list \<Rightarrow> error + 'b list" where
  "collect f [] = Inr []"
| "collect f (x # xs) =
     (case f x of
        Inl e \<Rightarrow> Inl e
      | Inr y \<Rightarrow> (case collect f xs of Inl e \<Rightarrow> Inl e | Inr ys \<Rightarrow> Inr (y # ys)))"

text \<open>A hit value as a summand of \<^verbatim>\<open>sum\<close>, and as an element of \<^verbatim>\<open>list[Game]\<close>.\<close>

definition hit_number :: "hit_value \<Rightarrow> error + real" where
  "hit_number v =
     (case v of HNum x \<Rightarrow> Inr x | HInt i \<Rightarrow> Inr (real_of_int i) | _ \<Rightarrow> Inl (Error ''TypeError''))"

definition as_game :: "hit_value \<Rightarrow> error + game" where
  "as_game v = (case v of HGame g \<Rightarrow> Inr g | _ \<Rightarrow> Inl (Error ''ValidationError''))"

definition similarity_of :: "hit \<Rightarrow> error + real" where
  "similarity_of h =
     (case hit_lookup h ''similarity_score'' of Inl e \<Rightarrow> Inl e | Inr v \<Rightarrow> hit_number v)"

text \<open>The body of the \<^verbatim>\<open>try\<close> of \<^verbatim>\<open>RetrieveGameTool.__call__\<close>.\<close>

definition retrieve_try :: "env \<Rightarrow> GameVectorStore \<Rightarrow> string \<Rightarrow> nat \<Rightarrow> error + retrieval_envelope" where
  "retrieve_try w vs query n_results =
     (let search_results = search_games w vs query n_results in
      if search_results = [] then
        Inr \<lparr>e_games = Some [], e_query = query, e_total_results = 0, e_confidence_score = 0,
             e_search_method = ''vector_db'',
             e_message = Some ''No games found matching the query'', e_error = None\<rparr>
      else
        (case collect (\<lambda>result. hit_lookup result ''game'') search_results of
           Inl e \<Rightarrow> Inl e
         | Inr games \<Rightarrow>
             (case collect similarity_of search_results of
                Inl e \<Rightarrow> Inl e
              | Inr scores \<Rightarrow>
                  (let avg_confidence = sum_list scores / real (length search_results);
                       clamped = max 0 (min 1 avg_confidence)
                   in case collect as_game games of
                        Inl e \<Rightarrow> Inl e
                      | Inr gs \<Rightarrow>
                          Inr \<lparr>e_games = Some gs, e_query = query, e_total_results = length gs,
                               e_confidence_score = clamped, e_search_method = ''vector_db'',
                               e_message = None, e_error = None\<rparr>))))"

text \<open>\<^verbatim>\<open>RetrieveGameTool.__call__\<close>: the handler turns an exception into the error envelope.\<close>

definition retrieve_game_tool :: "env \<Rightarrow> GameVectorStore \<Rightarrow> string \<Rightarrow> nat \<Rightarrow> retrieval_envelope" where
  "retrieve_game_tool w vs query n_results =
     (case retrieve_try w vs query n_results of
        Inr envelope \<Rightarrow> envelope
      | Inl e \<Rightarrow>
          \<lparr>e_games = None, e_query = query, e_total_results = 0, e_confidence_score = 0,
           e_search_method = ''vector_db'', e_message = None,
           e_error = Some (''Error searching games: '' @ str_of e)\<rparr>)"

text \<open>The confidence the specification states for a list of similarity scores.\<close>

definition spec_confidence :: "real list \<Rightarrow> real" where
  "spec_confidence scores = max 0 (min 1 (sum_list scores / real (length scores)))"

record evaluation_report =
  er_useful :: bool
  er_description :: string
  er_confidence :: real
  er_recommendation :: string

text \<open>
  \<^verbatim>\<open>_create_evaluation_report\<close>: the model validates the confidence to lie in [0, 1].
\<close>

definition create_evaluation_report ::
  "bool \<Rightarrow> string \<Rightarrow> real \<Rightarrow> string \<Rightarrow> error + evaluation_report" where
  "create_evaluation_report useful description confidence recommendation =
     (if 0 \<le> confidence \<and> confidence \<le> 1 then
        Inr \<lparr>er_useful = useful, er_description = description, er_confidence = confidence,
             er_recommendation = recommendation\<rparr>
      else Inl (Error ''ValidationError''))"

text \<open>
  The argument \<^verbatim>\<open>retrieved_docs\<close> of the evaluation: a text from which \<^verbatim>\<open>json.loads\<close> and
  the reading of the games raise an exception, or the envelope the text denotes.
\<close>

datatype retrieved_docs = Unparsable error | Docs retrieval_envelope

text \<open>
  The body of the \<^verbatim>\<open>try\<close> of \<^verbatim>\<open>EvaluateRetrievalTool.__call__\<close>, with the number of calls
  of the judging model it made. The prompt is built from the question and the games.
\<close>

definition evaluate_try :: "env \<Rightarrow> string \<Rightarrow> retrieved_docs \<Rightarrow> (error + evaluation_report) \<times> nat" where
  "evaluate_try w question retrieved =
     (case retrieved of
        Unparsable e \<Rightarrow> (Inl e, 0)
      | Docs docs_data \<Rightarrow>
          (let games = (case e_games docs_data of None \<Rightarrow> [] | Some gs \<Rightarrow> gs) in
           if games = [] then
             (create_evaluation_report False ''No games were retrieved from the database'' 0
                ''search_web'', 0)
           else
             (case env_judge w question games of
                Inl e \<Rightarrow> (Inl e, 1)
              | Inr evaluation_data \<Rightarrow>
                  (create_evaluation_report
                     (case re_useful evaluation_data of None \<Rightarrow> False | Some b \<Rightarrow> b)
                     (or_empty (re_description evaluation_data))
                     (case re_confidence evaluation_data of None \<Rightarrow> 0 | Some c \<Rightarrow> c)
                     (case re_recommendation evaluation_data of
                        None \<Rightarrow> ''search_web'' | Some r \<Rightarrow> r), 1))))"

text \<open>\<^verbatim>\<open>EvaluateRetrievalTool.__call__\<close>\<close>

definition evaluate_retrieval_tool ::
  "env \<Rightarrow> string \<Rightarrow> retrieved_docs \<Rightarrow> (error + evaluation_report) \<times> nat" where
  "evaluate_retrieval_tool w question retrieved =
     (case evaluate_try w question retrieved of
        (Inr report, calls) \<Rightarrow> (Inr report, calls)
      | (Inl e, calls) \<Rightarrow>
          (create_evaluation_report False (''Error during evaluation: '' @ str_of e) 0
             ''search_web'', calls))"

text \<open>\<^verbatim>\<open>_enhance_query\<close>\<close>

definition enhance_query :: "string \<Rightarrow> string" where
  "enhance_query question =
     (if \<not> any_in [''game'', ''video game'', ''gaming'', ''gamer'', ''console'', ''platform'']
             (lower question)
      then question @ '' video game'' else question) @
     '' site:ign.com OR site:gamespot.com OR site:metacritic.com OR site:wikipedia.org''"

text \<open>\<^verbatim>\<open>WebSearchResult(...)\<close> of one provider result: the score must lie in [0, 1].\<close>

definition web_search_result :: "provider_result \<Rightarrow> error + web_result" where
  "web_search_result r =
     (let score = (case pr_score r of None \<Rightarrow> 0 | Some x \<Rightarrow> x) in
      if 0 \<le> score \<and> score \<le> 1 then
        Inr \<lparr>r_title = Some (or_empty (pr_title r)), r_url = Some (or_empty (pr_url r)),
             r_content = Some (or_empty (pr_content r)), r_relevance_score = Some score,
             r_score = None\<rparr>
      else Inl (Error ''ValidationError''))"

text \<open>\<^verbatim>\<open>GameWebSearchTool.__call__\<close>\<close>

definition game_web_search_tool :: "env \<Rightarrow> string \<Rightarrow> nat \<Rightarrow> web_payload" where
  "game_web_search_tool w question max_results =
     (case (case env_provider w (enhance_query question) max_results of
              Inl e \<Rightarrow> Inl e
            | Inr search_results \<Rightarrow>
                collect web_search_result
                  (case pr_results search_results of None \<Rightarrow> [] | Some rs \<Rightarrow> rs)) of
        Inr web_results \<Rightarrow>
          \<lparr>w_results = Some web_results, w_total_results = Some (int (length web_results)),
           w_error = None\<rparr>
      | Inl e \<Rightarrow>
          \<lparr>w_results = Some [], w_total_results = Some 0,
           w_error = Some (''Error performing web search: '' @ str_of e)\<rparr>)"

section \<open>The agent (src/agent/udaplay_agent.py)\<close>

record AgentResponse =
  answer :: string
  confidence :: real
  sources :: "string list"
  search_method :: string
  timestamp :: string

text \<open>
  \<^verbatim>\<open>AgentResponse(...)\<close>: the model validates the confidence to be a number in [0, 1].
\<close>

definition make_response ::
  "string \<Rightarrow> pyfloat \<Rightarrow> string list \<Rightarrow> string \<Rightarrow> string \<Rightarrow> error + AgentResponse" where
  "make_response text c srcs method now =
     (case c of
        Finite x \<Rightarrow>
          if 0 \<le> x \<and> x \<le> 1 then
            Inr \<lparr>answer = text, confidence = x, sources = srcs, search_method = method,
                 timestamp = now\<rparr>
          else Inl (Error ''ValidationError'')
      | NotFinite \<Rightarrow> Inl (Error ''ValidationError''))"

text \<open>
  The tools of an agent are attributes that a test replaces, so \<open>process_query\<close> takes them
  as a parameter. Each returns the value its JSON text denotes, or raises. The evaluation
  is read with \<^verbatim>\<open>.get\<close>, so its keys are optional.
\<close>

record toolset =
  t_retrieve :: "GameVectorStore \<Rightarrow> string \<Rightarrow> nat \<Rightarrow> error + retrieval_envelope"
  t_evaluate :: "string \<Rightarrow> retrieved_docs \<Rightarrow> error + raw_evaluation"
  t_web :: "string \<Rightarrow> nat \<Rightarrow> error + web_payload"

text \<open>The evaluation report as the dictionary its JSON text denotes.\<close>

definition report_data :: "evaluation_report \<Rightarrow> raw_evaluation" where
  "report_data r =
     \<lparr>re_useful = Some (er_useful r), re_description = Some (er_description r),
      re_confidence = Some (er_confidence r), re_recommendation = Some (er_recommendation r)\<rparr>"

text \<open>The tools \<^verbatim>\<open>UdaPlayAgent.__init__\<close> creates.\<close>

definition udaplay_tools :: "env \<Rightarrow> toolset" where
  "udaplay_tools w =
     \<lparr>t_retrieve = (\<lambda>vs query n. Inr (retrieve_game_tool w vs query n)),
      t_evaluate = (\<lambda>question retrieved.
                     map_sum id report_data (fst (evaluate_retrieval_tool w question retrieved))),
      t_web = (\<lambda>question n. Inr (game_web_search_tool w question n))\<rparr>"

text \<open>
  The calls \<open>process_query\<close> makes on its collaborators, in their order: the three tools,
  the answering model, the store, the memory system and the state machine.
\<close>

datatype call =
    CallRetrieve | CallEvaluate | CallWebSearch | CallAnswer | CallAddDocument
  | CallLearnWeb | CallLearnConversation | CallTransition AgentState | CallPersist

record UdaPlayAgent =
  vector_store :: GameVectorStore
  advanced_memory_system :: AdvancedMemorySystem
  conversation_history :: "(string \<times> string \<times> string) list"
  state_machine :: AgentStateMachine
  state_files :: state_disk

text \<open>
  \<^verbatim>\<open>text.split(sep)[-1]\<close> for a non-empty separator: the piece after the last occurrence
  found from the left; \<open>cur\<close> is the piece read so far.
\<close>

fun last_piece :: "string \<Rightarrow> string \<Rightarrow> string \<Rightarrow> string" where
  "last_piece sep cur [] = cur"
| "last_piece sep cur (c # cs) =
     (if sep \<noteq> [] \<and> has_prefix sep (c # cs) then last_piece sep [] (drop (length sep - 1) cs)
      else last_piece sep (cur @ [c]) cs)"

text \<open>The confidence \<^verbatim>\<open>_generate_final_answer\<close> reads from the generated text.\<close>

definition extract_confidence :: "env \<Rightarrow> string option \<Rightarrow> pyfloat" where
  "extract_confidence w answer_text =
     (case answer_text of
        None \<Rightarrow> Finite 0.8
      | Some text \<Rightarrow>
          if text \<noteq> [] \<and> contains ''confidence:'' (lower text) then
            (let confidence_part = strip (last_piece ''confidence:'' [] (lower text)) in
             case split confidence_part of
               [] \<Rightarrow> Finite 0.8
             | token # rest \<Rightarrow> (case env_float w token of None \<Rightarrow> Finite 0.8 | Some x \<Rightarrow> x))
          else Finite 0.8)"

text \<open>
  What the prompt shows of a web result: \<^verbatim>\<open>result['title']\<close>, \<^verbatim>\<open>result['url']\<close> and
  \<^verbatim>\<open>result['content'][:200]\<close>, read in this order; the first missing key raises
  \<^verbatim>\<open>KeyError\<close>, whose text is the quoted key.
\<close>

definition web_context :: "web_result \<Rightarrow> error + (string \<times> string \<times> string)" where
  "web_context result =
     (case r_title result of
        None \<Rightarrow> Inl (Error ([CHR 0x27] @ ''title'' @ [CHR 0x27]))
      | Some t \<Rightarrow>
          (case r_url result of
             None \<Rightarrow> Inl (Error ([CHR 0x27] @ ''url'' @ [CHR 0x27]))
           | Some u \<Rightarrow>
               (case r_content result of
                  None \<Rightarrow> Inl (Error ([CHR 0x27] @ ''content'' @ [CHR 0x27]))
                | Some c \<Rightarrow> Inr (t, u, take 200 c))))"

record final_answer =
  fa_answer :: string
  fa_confidence :: pyfloat
  fa_sources :: "string list"
  fa_search_method :: string

text \<open>
  \<^verbatim>\<open>_generate_final_answer\<close>, with the calls of the answering model it made. The sources
  list already holds \<open>web_search\<close> when the search method is chosen.
\<close>

definition generate_final_answer ::
  "env \<Rightarrow> string \<Rightarrow> retrieval_envelope \<Rightarrow> raw_evaluation \<Rightarrow> web_payload option \<Rightarrow>
     (error + final_answer) \<times> call list" where
  "generate_final_answer w question retrieval_data evaluation_data web_results =
     (let games = (case e_games retrieval_data of None \<Rightarrow> [] | Some gs \<Rightarrow> gs);
          sources1 = (if games \<noteq> [] then [''vector_db''] else []);
          web = (case web_results of
                   None \<Rightarrow> []
                 | Some payload \<Rightarrow> (case w_results payload of None \<Rightarrow> [] | Some rs \<Rightarrow> rs))
      in case (if web \<noteq> [] then collect web_context (take 3 web) else Inr []) of
           Inl e \<Rightarrow> (Inl e, [])
         | Inr shown \<Rightarrow>
             (let sources2 = (if web \<noteq> [] then sources1 @ [''web_search''] else sources1);
                  method = (if web \<noteq> [] then (if sources2 \<noteq> [] then ''combined'' else ''web_search'')
                            else ''vector_db'')
              in case env_answer w question games shown (or_empty (re_description evaluation_data)) of
                   Inl e \<Rightarrow> (Inl e, [CallAnswer])
                 | Inr answer_text \<Rightarrow>
                     (Inr \<lparr>fa_answer = (if or_empty answer_text = [] then ''No response generated''
                                         else or_empty answer_text),
                           fa_confidence = extract_confidence w answer_text,
                           fa_sources = sources2, fa_search_method = method\<rparr>, [CallAnswer])))"

text \<open>The metadata \<open>process_query\<close> passes to \<open>add_document\<close> for a web result.\<close>

definition web_metadata :: "web_result \<Rightarrow> metadata" where
  "web_metadata r =
     \<lparr>md_title = Some (or_empty (r_title r)), md_url = Some (or_empty (r_url r)),
      md_source = Some ''web_search'',
      md_relevance_score = (case r_relevance_score r of None \<Rightarrow> r_score r | Some x \<Rightarrow> Some x),
      md_ingested_at = Missing, md_snippet = Missing\<rparr>"

text \<open>
  The first side effect after the synthesis: the web results go into the store and into
  the memory system. Neither of the two operations raises.
\<close>

definition persist_web_results ::
  "env \<Rightarrow> UdaPlayAgent \<Rightarrow> string \<Rightarrow> web_payload option \<Rightarrow> UdaPlayAgent \<times> call list" where
  "persist_web_results w ag question web_results =
     (case web_results of
        None \<Rightarrow> (ag, [])
      | Some payload \<Rightarrow>
          (case w_results payload of
             None \<Rightarrow> (ag, [])
           | Some rs \<Rightarrow>
               if rs = [] then (ag, [])
               else
                 (ag\<lparr>vector_store :=
                       fold (\<lambda>r vs. snd (add_document w vs (or_empty (r_content r)) (web_metadata r) None))
                         rs (vector_store ag),
                     advanced_memory_system :=
                       learn_from_web_search (advanced_memory_system ag) question payload
                         ''default'' (env_now w) (env_hash w)\<rparr>,
                  replicate (length rs) CallAddDocument @ [CallLearnWeb])))"

text \<open>The sufficiency threshold written in \<open>process_query\<close>.\<close>

definition confidence_threshold :: real where
  "confidence_threshold = 0.7"

text \<open>
  \<^verbatim>\<open>use_web_search\<close>: the evaluation is not useful, or its confidence is under the threshold.
\<close>

definition use_web_search :: "raw_evaluation \<Rightarrow> bool" where
  "use_web_search evaluation_data \<longleftrightarrow>
     \<not> (case re_useful evaluation_data of None \<Rightarrow> False | Some b \<Rightarrow> b) \<or>
     (case re_confidence evaluation_data of None \<Rightarrow> 0 | Some c \<Rightarrow> c) < confidence_threshold"

text \<open>
  Steps 4 and 5 of \<open>process_query\<close> and the side effects after them, for the web results
  the caller has (\<open>None\<close> when no web search was made) and the calls made so far: the
  synthesis of the answer, the response object, the web results into the store and the
  memory system, the conversation into the memory system and the transcript, and the
  final persist of the state machine.
\<close>

definition finish_query ::
  "env \<Rightarrow> UdaPlayAgent \<Rightarrow> string \<Rightarrow> retrieval_envelope \<Rightarrow> raw_evaluation \<Rightarrow>
     web_payload option \<Rightarrow> call list \<Rightarrow> (error + AgentResponse) \<times> UdaPlayAgent \<times> call list" where
  "finish_query w ag question retrieval_data evaluation_data web_results calls1 =
     (let (generated, calls2) =
            generate_final_answer w question retrieval_data evaluation_data web_results
      in case generated of
           Inl e \<Rightarrow> (Inl e, ag, calls1 @ calls2)
         | Inr final \<Rightarrow>
             (case make_response (fa_answer final) (fa_confidence final)
                     (fa_sources final) (fa_search_method final) (env_now w) of
                Inl e \<Rightarrow> (Inl e, ag, calls1 @ calls2)
              | Inr response \<Rightarrow>
                  (let (ag1, calls3) = persist_web_results w ag question web_results;
                       ag2 = ag1\<lparr>advanced_memory_system :=
                               learn_from_conversation (advanced_memory_system ag1)
                                 question (fa_answer final) ''default'' (env_now w)\<rparr>;
                       ag3 = ag2\<lparr>conversation_history := conversation_history ag2 @
                               [(question, fa_answer final, env_now w)]\<rparr>;
                       ag4 = ag3\<lparr>state_files :=
                               persist (state_machine ag3) (state_files ag3)\<rparr>
                   in (Inr response, ag4,
                       calls1 @ calls2 @ calls3 @ [CallLearnConversation, CallPersist]))))"

text \<open>
  The body of the \<^verbatim>\<open>try\<close> of \<open>process_query\<close>: the response or the exception, the agent
  afterwards, and the calls made. The web search tool is called, with at most 3 results,
  in the branch where \<open>use_web_search\<close> holds, and what it returns goes on as the web
  results.
\<close>

definition process_try ::
  "env \<Rightarrow> toolset \<Rightarrow> UdaPlayAgent \<Rightarrow> string \<Rightarrow> (error + AgentResponse) \<times> UdaPlayAgent \<times> call list" where
  "process_try w tools ag question =
     (case t_retrieve tools (vector_store ag) question 5 of
        Inl e \<Rightarrow> (Inl e, ag, [CallRetrieve])
      | Inr retrieval_data \<Rightarrow>
          (case t_evaluate tools question (Docs retrieval_data) of
             Inl e \<Rightarrow> (Inl e, ag, [CallRetrieve, CallEvaluate])
           | Inr evaluation_data \<Rightarrow>
               if use_web_search evaluation_data then
                 (case t_web tools question 3 of
                    Inl e \<Rightarrow> (Inl e, ag, [CallRetrieve, CallEvaluate, CallWebSearch])
                  | Inr payload \<Rightarrow>
                      finish_query w ag question retrieval_data evaluation_data (Some payload)
                        [CallRetrieve, CallEvaluate, CallWebSearch])
               else
                 finish_query w ag question retrieval_data evaluation_data None
                   [CallRetrieve, CallEvaluate]))"

text \<open>The response of the handler of \<open>process_query\<close> for an exception.\<close>

definition error_response :: "env \<Rightarrow> error \<Rightarrow> error + AgentResponse" where
  "error_response w e =
     make_response (''I encountered an error while processing your question: '' @ str_of e)
       (Finite 0) [] ''error'' (env_now w)"

text \<open>\<open>process_query\<close>\<close>

definition process_query ::
  "env \<Rightarrow> toolset \<Rightarrow> UdaPlayAgent \<Rightarrow> string \<Rightarrow> (error + AgentResponse) \<times> UdaPlayAgent \<times> call list" where
  "process_query w tools ag question =
     (case process_try w tools ag question of
        (Inr response, ag1, calls) \<Rightarrow> (Inr response, ag1, calls)
      | (Inl e, ag1, calls) \<Rightarrow> (error_response w e, ag1, calls))"

section \<open>Named results and example inputs\<close>

text \<open>The facts stored for a user: none when the user has no entry.\<close>

definition stored_facts :: "AdvancedMemorySystem \<Rightarrow> string \<Rightarrow> fact list" where
  "stored_facts m user_id = (case facts_memory m user_id of None \<Rightarrow> [] | Some fs \<Rightarrow> fs)"

text \<open>Sixty facts with pairwise different contents, and two payloads without results.\<close>

definition demo_fact :: "nat \<Rightarrow> fact" where
  "demo_fact n =
     \<lparr>f_content = replicate (Suc n) CHR ''x'', f_source = ''https://example.com'',
      f_title = ''title'', f_query = ''query'', f_timestamp = ''t0'',
      f_relevance_score = 0.5, f_fact_type = ''general_info''\<rparr>"

definition demo_facts :: "fact list" where
  "demo_facts = map demo_fact [0..<60]"

definition no_results :: web_payload where
  "no_results = \<lparr>w_results = None, w_total_results = None, w_error = None\<rparr>"

definition empty_results :: web_payload where
  "empty_results = \<lparr>w_results = Some [], w_total_results = Some 0, w_error = None\<rparr>"

definition demo_content :: string where
  "demo_content = ''This is a test web document about a Mock Game.''"

text \<open>The report of the handler of the evaluation for an exception.\<close>

definition error_report :: "error \<Rightarrow> evaluation_report" where
  "error_report e =
     \<lparr>er_useful = False, er_description = ''Error during evaluation: '' @ str_of e,
      er_confidence = 0, er_recommendation = ''search_web''\<rparr>"

text \<open>A game, and the envelopes of a retrieval with one game and with none.\<close>

definition mock_game :: game where
  "mock_game =
     \<lparr>g_name = ''Mock Game'', g_platform = ''MockPlatform'', g_genre = ''Adventure'',
      g_publisher = ''MockPub'', g_description = ''A mock game used for tests'',
      g_year_of_release = 2000\<rparr>"

definition envelope_of :: "game list option \<Rightarrow> retrieval_envelope" where
  "envelope_of gs =
     \<lparr>e_games = gs, e_query = ''When was Mock Game released?'',
      e_total_results = (case gs of None \<Rightarrow> 0 | Some xs \<Rightarrow> length xs), e_confidence_score = 0,
      e_search_method = ''vector_db'', e_message = None, e_error = None\<rparr>"

text \<open>
  An environment whose backend answers every query with the one entry of the mock game,
  at distance 0.2.
\<close>

definition hit_env :: env where
  "hit_env = demo_env
     \<lparr>env_query := (\<lambda>c q n. Inr \<lparr>q_documents = [''[MockPlatform] Mock Game (2000)''],
                                   q_distances = [0.2], q_metadatas = [GameMeta mock_game]\<rparr>)\<rparr>"

text \<open>An environment whose backend raises on every query.\<close>

definition failing_env :: env where
  "failing_env = demo_env\<lparr>env_query := (\<lambda>c q n. Inl (Error ''backend unavailable''))\<rparr>"

text \<open>The envelope of an empty result, and the envelope of the handler.\<close>

definition empty_envelope :: "string \<Rightarrow> retrieval_envelope" where
  "empty_envelope query =
     \<lparr>e_games = Some [], e_query = query, e_total_results = 0, e_confidence_score = 0,
      e_search_method = ''vector_db'',
      e_message = Some ''No games found matching the query'', e_error = None\<rparr>"

definition error_envelope :: "string \<Rightarrow> error \<Rightarrow> retrieval_envelope" where
  "error_envelope query e =
     \<lparr>e_games = None, e_query = query, e_total_results = 0, e_confidence_score = 0,
      e_search_method = ''vector_db'', e_message = None,
      e_error = Some (''Error searching games: '' @ str_of e)\<rparr>"

text \<open>
  An agent on the empty store with an empty memory, and tools as a test sets them: the
  retrieval finds the mock game, the evaluation answers with the given usefulness and
  confidence, the web search finds one page.
\<close>

definition demo_agent :: UdaPlayAgent where
  "demo_agent =
     \<lparr>vector_store = demo_store, advanced_memory_system = empty_memory,
      conversation_history = [], state_machine = demo_machine, state_files = demo_disk\<rparr>"

definition mock_page :: web_result where
  "mock_page =
     \<lparr>r_title = Some ''Mock Result'', r_url = Some ''https://example.com'',
      r_content = Some ''Mock content about Pokemon'', r_relevance_score = Some 0.9,
      r_score = None\<rparr>"

definition mock_tools :: "bool \<Rightarrow> real \<Rightarrow> toolset" where
  "mock_tools useful c =
     \<lparr>t_retrieve = (\<lambda>vs query n. Inr ((envelope_of (Some [mock_game]))\<lparr>e_confidence_score := 0.8\<rparr>)),
      t_evaluate = (\<lambda>question retrieved.
         Inr \<lparr>re_useful = Some useful, re_description = Some ''Mock evaluation'',
              re_confidence = Some c, re_recommendation = Some ''proceed_with_answer''\<rparr>),
      t_web = (\<lambda>question n.
         Inr \<lparr>w_results = Some [mock_page], w_total_results = Some 1, w_error = None\<rparr>)\<rparr>"

text \<open>
  An environment whose answering model answers, and tools whose retrieval, evaluation or
  web search raises.
\<close>

definition answering_env :: env where
  "answering_env = demo_env
     \<lparr>env_answer := (\<lambda>q gs ws d. Inr (Some ''Mock Game was released in 2000. Confidence: 0.9'')),
      env_float := (\<lambda>s. if s = ''0.9'' then Some (Finite 0.9) else None)\<rparr>"

definition broken_tools :: toolset where
  "broken_tools = (mock_tools True 0.9)\<lparr>t_retrieve := (\<lambda>vs query n. Inl (Error ''boom''))\<rparr>"

definition judge_broken_tools :: toolset where
  "judge_broken_tools =
     (mock_tools True 0.9)\<lparr>t_evaluate := (\<lambda>question retrieved. Inl (Error ''no judge''))\<rparr>"

definition web_broken_tools :: toolset where
  "web_broken_tools = (mock_tools False 0.3)\<lparr>t_web := (\<lambda>question n. Inl (Error ''no web''))\<rparr>"

definition web_only :: "web_payload option" where
  "web_only = Some \<lparr>w_results = Some [mock_page], w_total_results = Some 1, w_error = None\<rparr>"

section \<open>Properties of the state machine\<close>

lemma allowed_iff_spec: "T \<in> set (allowed S) \<longleftrightarrow> (S, T) \<in> spec_allowed"
  by (cases S; cases T) (simp_all add: spec_allowed_def)

lemma persist_inner_bound:
  assumes "persist_file sm = Some path" and "path \<noteq> []" and "writable (disk path)"
  shows "content (persist_inner sm disk path) =
           Holds \<lparr>doc_state = state_value (state sm),
                  doc_last_transition_time = last_transition_time sm\<rparr>"
    and "writes (persist_inner sm disk path) = Suc (writes (disk path))"
  using assms by (simp_all add: persist_inner_def write_file_def)

text \<open>
  Claim C1. For every current state \<open>S\<close> and target \<open>T\<close>, \<open>transition\<close> returns true exactly
  when \<open>T\<close> is in the allowed set of \<open>S\<close> as the specification lists it. On success the state
  is \<open>T\<close>, the last-transition time is the clock reading, and the machine is persisted: the
  disk is the one \<open>_persist\<close> leaves for the new machine, so a bound, writable file holds
  the new state and time after one more write. On failure the machine and the disk are
  unchanged. The call always returns a value: a failing write is swallowed.
\<close>

theorem transition_guarded:
  assumes "transition sm T now disk = (ok, sm', disk')"
  shows "(ok \<longleftrightarrow> (state sm, T) \<in> spec_allowed) \<and>
         (ok \<longrightarrow>
            state sm' = T \<and> last_transition_time sm' = now \<and>
            persist_file sm' = persist_file sm \<and>
            disk' = persist sm' disk \<and>
            (\<forall>path. persist_file sm = Some path \<and> path \<noteq> [] \<and> writable (disk path) \<longrightarrow>
               content (disk' path) =
                 Holds \<lparr>doc_state = state_value T, doc_last_transition_time = now\<rparr> \<and>
               writes (disk' path) = Suc (writes (disk path)))) \<and>
         (\<not> ok \<longrightarrow> sm' = sm \<and> disk' = disk)"
proof (cases "T \<in> set (allowed (state sm))")
  case True
  let ?sm = "sm\<lparr>state := T, last_transition_time := now\<rparr>"
  from True assms have r: "ok" "sm' = ?sm" "disk' = persist_inner ?sm disk"
    by (auto simp add: transition_def Let_def)
  have "\<forall>path. persist_file sm = Some path \<and> path \<noteq> [] \<and> writable (disk path) \<longrightarrow>
          content (disk' path) =
            Holds \<lparr>doc_state = state_value T, doc_last_transition_time = now\<rparr> \<and>
          writes (disk' path) = Suc (writes (disk path))"
    using r persist_inner_bound [of ?sm _ disk] by simp
  with True r show ?thesis
    by (simp add: allowed_iff_spec persist_def)
next
  case False
  with assms have "\<not> ok" "sm' = sm" "disk' = disk"
    by (auto simp add: transition_def)
  with False show ?thesis
    by (simp add: allowed_iff_spec)
qed

text \<open>
  The theorem at two concrete calls on a machine bound to \<open>state.json\<close> with a writable
  disk: the allowed step from idle to retrieving, and the rejected step from idle to
  answering.
\<close>

theorem transition_guarded_witness:
  "fst (transition demo_machine RETRIEVING ''t1'' demo_disk) \<and>
   state (fst (snd (transition demo_machine RETRIEVING ''t1'' demo_disk))) = RETRIEVING \<and>
   content (snd (snd (transition demo_machine RETRIEVING ''t1'' demo_disk)) ''state.json'') =
     Holds \<lparr>doc_state = ''retrieving'', doc_last_transition_time = ''t1''\<rparr> \<and>
   \<not> fst (transition demo_machine ANSWERING ''t1'' demo_disk) \<and>
   fst (snd (transition demo_machine ANSWERING ''t1'' demo_disk)) = demo_machine"
proof -
  obtain ok sm' disk' where
    t: "transition demo_machine RETRIEVING ''t1'' demo_disk = (ok, sm', disk')"
    by (cases "transition demo_machine RETRIEVING ''t1'' demo_disk") auto
  have pre: "persist_file demo_machine = Some ''state.json''"
    "writable (demo_disk ''state.json'')" "state demo_machine = IDLE"
    by (simp_all add: demo_machine_def demo_disk_def init_machine_def)
  have "(IDLE, RETRIEVING) \<in> spec_allowed"
    by (simp add: spec_allowed_def)
  with transition_guarded [OF t] pre
  have a: "ok" "state sm' = RETRIEVING"
    "content (disk' ''state.json'') =
       Holds \<lparr>doc_state = ''retrieving'', doc_last_transition_time = ''t1''\<rparr>"
    by auto
  obtain ok2 sm2 disk2 where
    u: "transition demo_machine ANSWERING ''t1'' demo_disk = (ok2, sm2, disk2)"
    by (cases "transition demo_machine ANSWERING ''t1'' demo_disk") auto
  have "(IDLE, ANSWERING) \<notin> spec_allowed"
    by (simp add: spec_allowed_def)
  with transition_guarded [OF u] pre
  have b: "\<not> ok2" "sm2 = demo_machine"
    by auto
  from a b t u show ?thesis
    by simp
qed

section \<open>Properties of the memory system\<close>

text \<open>
  The sums of \<^verbatim>\<open>_calculate_success_score\<close> in floating point: 0.5 + 0.2 is the float 0.7,
  0.7 + 0.2 is the float below 0.9 (printed 0.8999999999999999), and that plus 0.1 is the
  float below 1 (printed 0.9999999999999999), so the score never reaches the cap.
\<close>

lemma float_add_steps:
  "float_add (1 / 2) float_0_2 = 3152519739159347 / 4503599627370496"
  "float_add (3152519739159347 / 4503599627370496) float_0_2 = 2026619832316723 / 2251799813685248"
  "float_add (2026619832316723 / 2251799813685248) float_0_1 = 9007199254740991 / 9007199254740992"
  by (simp_all add: float_add_def float_0_2_def float_0_1_def round_half_even_def Let_def)

lemma last_n_length: "length (last_n n xs) \<le> n"
  by (simp add: last_n_def)

lemma last_n_short: "length xs \<le> n \<Longrightarrow> last_n n xs = xs"
  by (simp add: last_n_def)

lemma cap_is_last_n: "(if length xs > n then last_n n xs else xs) = last_n n xs"
  by (simp add: last_n_def)

lemma last_n_snoc:
  assumes "0 < n"
  shows "last_n n (last_n n xs @ [x]) = last_n n (xs @ [x])"
proof -
  have "Suc (length xs) - (length xs - n + n) + (length xs - n) = Suc (length xs) - n"
    using assms by arith
  then show ?thesis
    by (simp add: last_n_def)
qed

lemma set_last_n: "set (last_n n xs) \<subseteq> set xs"
  by (simp add: last_n_def set_drop_subset)

lemma update_existing_length:
  "update_existing f fs = Some fs' \<Longrightarrow> length fs' = length fs"
  by (induction fs arbitrary: fs') (auto split: if_splits)

lemma update_existing_None:
  "update_existing f fs = None \<longleftrightarrow> f_content f \<notin> f_content ` set fs"
  by (induction fs) auto

lemma update_existing_Some:
  "f_content f \<in> f_content ` set fs \<Longrightarrow>
   \<exists>i < length fs. f_content (fs ! i) = f_content f \<and>
      (\<forall>j < i. f_content (fs ! j) \<noteq> f_content f) \<and>
      update_existing f fs = Some (fs[i := f])"
proof (induction fs)
  case Nil
  then show ?case by simp
next
  case (Cons e es)
  show ?case
  proof (cases "f_content e = f_content f")
    case True
    then have "f_content ((e # es) ! 0) = f_content f \<and>
      (\<forall>j < 0. f_content ((e # es) ! j) \<noteq> f_content f) \<and>
      update_existing f (e # es) = Some ((e # es)[0 := f])"
      by simp
    then show ?thesis by blast
  next
    case False
    with Cons.prems have "f_content f \<in> f_content ` set es" by auto
    from Cons.IH [OF this] obtain i where i: "i < length es" "f_content (es ! i) = f_content f"
      "\<forall>j < i. f_content (es ! j) \<noteq> f_content f" "update_existing f es = Some (es[i := f])"
      by blast
    have "\<forall>j < Suc i. f_content ((e # es) ! j) \<noteq> f_content f"
    proof (intro allI impI)
      fix j assume "j < Suc i"
      then show "f_content ((e # es) ! j) \<noteq> f_content f"
        using False i(3) by (cases j) auto
    qed
    with False i have "Suc i < length (e # es) \<and> f_content ((e # es) ! Suc i) = f_content f \<and>
      (\<forall>j < Suc i. f_content ((e # es) ! j) \<noteq> f_content f) \<and>
      update_existing f (e # es) = Some ((e # es)[Suc i := f])"
      by simp
    then show ?thesis by blast
  qed
qed

lemma store_fact_facts:
  "facts_memory (store_fact m f u) =
     (facts_memory m)(u \<mapsto>
        (let old = (case facts_memory m u of None \<Rightarrow> [] | Some fs \<Rightarrow> fs) in
         case update_existing f old of Some fs \<Rightarrow> fs | None \<Rightarrow> last_n 50 (old @ [f])))"
  by (simp add: store_fact_def Let_def last_n_def split: option.splits)

lemma store_fact_other:
  "conversation_context (store_fact m f u) = conversation_context m"
  "successful_interactions (store_fact m f u) = successful_interactions m"
  "memory_file (store_fact m f u) = memory_file m"
  "user_preferences (store_fact m f u) = user_preferences m"
  "learned_patterns (store_fact m f u) = learned_patterns m"
  by (simp_all add: store_fact_def Let_def split: option.splits)

lemma store_fact_bounds: "within_bounds m \<Longrightarrow> within_bounds (store_fact m f u)"
  unfolding within_bounds_def store_fact_other store_fact_facts
  by (auto simp add: Let_def last_n_length dest: update_existing_length split: option.splits if_splits)

lemma store_results_bounds:
  "within_bounds m \<Longrightarrow> within_bounds (store_results m q rs u now)"
  unfolding store_results_def
  by (induction rs arbitrary: m) (auto simp add: store_fact_bounds split: option.splits)

lemma update_user_preferences_bounds:
  "within_bounds (update_user_preferences m q res u now) = within_bounds m"
  by (simp add: within_bounds_def update_user_preferences_def Let_def)

lemma learn_search_pattern_bounds:
  "within_bounds (learn_search_pattern m q res now h) = within_bounds m"
  by (simp add: within_bounds_def learn_search_pattern_def Let_def)

lemma save_memory_fields:
  "facts_memory (save_memory m now) = facts_memory m"
  "conversation_context (save_memory m now) = conversation_context m"
  "successful_interactions (save_memory m now) = successful_interactions m"
  "user_preferences (save_memory m now) = user_preferences m"
  "learned_patterns (save_memory m now) = learned_patterns m"
  by (simp_all add: save_memory_def write_file_def)

lemma save_memory_bounds: "within_bounds (save_memory m now) = within_bounds m"
  by (simp add: within_bounds_def save_memory_fields)

lemma learn_from_web_search_bounds:
  "within_bounds m \<Longrightarrow> within_bounds (learn_from_web_search m q res u now h)"
  by (simp add: learn_from_web_search_def Let_def save_memory_bounds
      learn_search_pattern_bounds update_user_preferences_bounds store_results_bounds
      split: option.splits)

lemma learn_from_conversation_lists:
  "successful_interactions (learn_from_conversation m q a u now) =
     last_n 100 (successful_interactions m @
       [\<lparr>i_timestamp = now, i_user_query = q, i_agent_response = take 200 a, i_user_id = u,
         i_success_score = calculate_success_score a\<rparr>])"
  "conversation_context (learn_from_conversation m q a u now) =
     last_n 50 (conversation_context m @
       [\<lparr>c_timestamp = now, c_user_id = u, c_user_query = q,
         c_agent_response = take 100 a, c_context_type = ''conversation''\<rparr>])"
  "facts_memory (learn_from_conversation m q a u now) = facts_memory m"
  by (simp_all add: learn_from_conversation_def Let_def save_memory_fields
      update_conversation_context_def extract_preferences_from_conversation_def last_n_def)

lemma learn_from_conversation_bounds:
  "within_bounds m \<Longrightarrow> within_bounds (learn_from_conversation m q a u now)"
  by (simp add: within_bounds_def learn_from_conversation_lists last_n_length)

lemma store_facts_snoc:
  "store_facts m (fs @ [f]) u = store_fact (store_facts m fs u) f u"
  by (simp add: store_facts_def)

lemma store_facts_fresh:
  assumes "fs \<noteq> []" and "distinct (map f_content fs)"
    and "facts_memory m u = None \<or> facts_memory m u = Some []"
  shows "facts_memory (store_facts m fs u) u = Some (last_n 50 fs)"
  using assms(1,2)
proof (induction fs rule: rev_induct)
  case Nil
  then show ?case by simp
next
  case (snoc f fs)
  have fresh: "f_content f \<notin> f_content ` set fs"
    using snoc.prems(2) by auto
  show ?case
  proof (cases "fs = []")
    case True
    with assms(3) show ?thesis
      by (auto simp add: store_facts_def store_fact_facts last_n_def)
  next
    case False
    with snoc have ih: "facts_memory (store_facts m fs u) u = Some (last_n 50 fs)"
      by simp
    have "f_content f \<notin> f_content ` set (last_n 50 fs)"
      using fresh set_last_n [of 50 fs] by blast
    then have "update_existing f (last_n 50 fs) = None"
      by (simp add: update_existing_None)
    with ih show ?thesis
      by (simp add: store_facts_snoc store_fact_facts last_n_snoc)
  qed
qed

lemma demo_facts_distinct: "distinct (map f_content demo_facts)"
proof -
  have "inj_on (\<lambda>n. replicate (Suc n) CHR ''x'') (set [0..<60])"
    by (rule inj_onI) (metis length_replicate nat.inject)
  then have "distinct (map (\<lambda>n. replicate (Suc n) CHR ''x'') [0..<60])"
    by (simp add: distinct_map)
  then show ?thesis
    by (simp add: demo_facts_def demo_fact_def comp_def)
qed

lemma store_fact_appends:
  assumes "f_content f \<notin> f_content ` set (stored_facts m u)"
  shows "facts_memory (store_fact m f u) u = Some (last_n 50 (stored_facts m u @ [f]))"
proof -
  from assms have "update_existing f (stored_facts m u) = None"
    by (simp add: update_existing_None)
  then show ?thesis
    by (simp add: store_fact_facts stored_facts_def)
qed

lemma store_fact_updates:
  assumes "f_content f \<in> f_content ` set (stored_facts m u)"
  shows "\<exists>i < length (stored_facts m u).
           f_content (stored_facts m u ! i) = f_content f \<and>
           (\<forall>j < i. f_content (stored_facts m u ! j) \<noteq> f_content f) \<and>
           facts_memory (store_fact m f u) u = Some ((stored_facts m u)[i := f])"
proof -
  from update_existing_Some [OF assms] obtain i where
    "i < length (stored_facts m u)" "f_content (stored_facts m u ! i) = f_content f"
    "\<forall>j < i. f_content (stored_facts m u ! j) \<noteq> f_content f"
    "update_existing f (stored_facts m u) = Some ((stored_facts m u)[i := f])"
    by blast
  then show ?thesis
    by (auto simp add: store_fact_facts stored_facts_def)
qed

text \<open>
  Claim C8. Every mutating operation of the memory system keeps the sequences within
  their bounds: at most 50 facts per user, 50 context items and 100 interactions. The
  interaction log and the context log are the last 100 and the last 50 entries of the
  log with the new entry appended, so the oldest entries go first. A fact whose content
  no stored fact of the user has is appended and the list cut to its last 50; a fact
  whose content a stored fact has replaces the first such fact in place. Inserting 60
  facts of pairwise different contents for a user with no facts leaves the last 50 of
  them: the 10 oldest are gone.
\<close>

theorem memory_bounds_preserved:
  "(within_bounds m \<longrightarrow>
      within_bounds (store_fact m f u) \<and>
      within_bounds (learn_from_web_search m q res u now h) \<and>
      within_bounds (learn_from_conversation m q a u now)) \<and>
   successful_interactions (learn_from_conversation m q a u now) =
     last_n 100 (successful_interactions m @
       [\<lparr>i_timestamp = now, i_user_query = q, i_agent_response = take 200 a, i_user_id = u,
         i_success_score = calculate_success_score a\<rparr>]) \<and>
   conversation_context (learn_from_conversation m q a u now) =
     last_n 50 (conversation_context m @
       [\<lparr>c_timestamp = now, c_user_id = u, c_user_query = q,
         c_agent_response = take 100 a, c_context_type = ''conversation''\<rparr>]) \<and>
   (f_content f \<notin> f_content ` set (stored_facts m u) \<longrightarrow>
      facts_memory (store_fact m f u) u = Some (last_n 50 (stored_facts m u @ [f]))) \<and>
   (f_content f \<in> f_content ` set (stored_facts m u) \<longrightarrow>
      (\<exists>i < length (stored_facts m u).
         f_content (stored_facts m u ! i) = f_content f \<and>
         (\<forall>j < i. f_content (stored_facts m u ! j) \<noteq> f_content f) \<and>
         facts_memory (store_fact m f u) u = Some ((stored_facts m u)[i := f]))) \<and>
   (length fs = 60 \<and> distinct (map f_content fs) \<and> stored_facts m u = [] \<longrightarrow>
      facts_memory (store_facts m fs u) u = Some (drop 10 fs) \<and>
      length (stored_facts (store_facts m fs u) u) = 50)"
proof -
  have sixty: "facts_memory (store_facts m fs u) u = Some (drop 10 fs) \<and>
      length (stored_facts (store_facts m fs u) u) = 50"
    if h: "length fs = 60" "distinct (map f_content fs)" "stored_facts m u = []"
  proof -
    from h(1) have "fs \<noteq> []" by auto
    moreover from h(3) have "facts_memory m u = None \<or> facts_memory m u = Some []"
      by (simp add: stored_facts_def split: option.splits)
    ultimately have "facts_memory (store_facts m fs u) u = Some (last_n 50 fs)"
      using h(2) store_facts_fresh [of fs m u] by blast
    with h(1) show ?thesis
      by (simp add: last_n_def stored_facts_def)
  qed
  show ?thesis
    using sixty store_fact_updates [of f m u] store_fact_appends [of f m u]
    by (simp add: store_fact_bounds learn_from_web_search_bounds
        learn_from_conversation_bounds learn_from_conversation_lists)
qed

text \<open>
  The theorem on the empty memory: the sixty facts, and a fact stored twice with a newer
  title.
\<close>

theorem memory_bounds_preserved_witness:
  "within_bounds empty_memory \<and>
   within_bounds (store_fact empty_memory (demo_fact 0) ''default'') \<and>
   within_bounds (learn_from_web_search empty_memory ''q'' no_results ''default'' ''t1'' (\<lambda>s. 0)) \<and>
   within_bounds (learn_from_conversation empty_memory ''q'' ''a'' ''default'' ''t1'') \<and>
   length demo_facts = 60 \<and> distinct (map f_content demo_facts) \<and>
   stored_facts empty_memory ''default'' = [] \<and>
   facts_memory (store_facts empty_memory demo_facts ''default'') ''default'' =
     Some (drop 10 demo_facts) \<and>
   length (stored_facts (store_facts empty_memory demo_facts ''default'') ''default'') = 50 \<and>
   facts_memory (store_fact empty_memory (demo_fact 0) ''default'') ''default'' =
     Some [demo_fact 0] \<and>
   facts_memory
     (store_fact (store_fact empty_memory (demo_fact 0) ''default'')
        ((demo_fact 0)\<lparr>f_title := ''newer title''\<rparr>) ''default'') ''default'' =
     Some [(demo_fact 0)\<lparr>f_title := ''newer title''\<rparr>]"
proof -
  let ?m1 = "store_fact empty_memory (demo_fact 0) ''default''"
  let ?new = "(demo_fact 0)\<lparr>f_title := ''newer title''\<rparr>"
  have pre: "within_bounds empty_memory" "length demo_facts = 60"
    "stored_facts empty_memory ''default'' = []"
    "f_content (demo_fact 0) \<notin> f_content ` set (stored_facts empty_memory ''default'')"
    by (simp_all add: within_bounds_def empty_memory_def demo_facts_def stored_facts_def)
  from memory_bounds_preserved
    [of empty_memory "demo_fact 0" "''default''" "''q''" no_results "''t1''" "\<lambda>s. 0" "''a''"
      demo_facts]
    pre demo_facts_distinct
  have first: "within_bounds ?m1"
    "within_bounds (learn_from_web_search empty_memory ''q'' no_results ''default'' ''t1'' (\<lambda>s. 0))"
    "within_bounds (learn_from_conversation empty_memory ''q'' ''a'' ''default'' ''t1'')"
    "facts_memory (store_facts empty_memory demo_facts ''default'') ''default'' =
       Some (drop 10 demo_facts)"
    "length (stored_facts (store_facts empty_memory demo_facts ''default'') ''default'') = 50"
    "facts_memory ?m1 ''default'' = Some [demo_fact 0]"
    by (simp_all add: last_n_def)
  have s1: "stored_facts ?m1 ''default'' = [demo_fact 0]"
    using first(6) by (simp add: stored_facts_def)
  have dup: "f_content ?new \<in> f_content ` set (stored_facts ?m1 ''default'')"
    by (simp add: s1)
  from memory_bounds_preserved
    [of ?m1 ?new "''default''" "''q''" no_results "''t1''" "\<lambda>s. 0" "''a''" demo_facts] dup
  have "\<exists>i<length (stored_facts ?m1 ''default'').
      facts_memory (store_fact ?m1 ?new ''default'') ''default'' =
        Some ((stored_facts ?m1 ''default'')[i := ?new])"
    by blast
  then have second: "facts_memory (store_fact ?m1 ?new ''default'') ''default'' = Some [?new]"
    by (simp add: s1)
  from pre first second demo_facts_distinct show ?thesis
    by simp
qed

lemma store_results_file: "memory_file (store_results m q rs u now) = memory_file m"
  unfolding store_results_def
  by (induction rs arbitrary: m) (auto simp add: store_fact_other split: option.splits)

text \<open>
  Claim C10. \<open>learn_from_web_search\<close> with a payload whose results are missing or empty
  returns the memory system as it was: no fact, preference, pattern or context changes and
  the memory file is not written. With a non-empty result list and a writable file the
  call ends with one write of the file.
\<close>

theorem learn_from_web_search_no_results:
  "(w_results res = None \<or> w_results res = Some [] \<longrightarrow>
      learn_from_web_search m q res u now h = m \<and>
      writes (memory_file (learn_from_web_search m q res u now h)) = writes (memory_file m)) \<and>
   (w_results res = Some rs \<and> rs \<noteq> [] \<and> writable (memory_file m) \<longrightarrow>
      writes (memory_file (learn_from_web_search m q res u now h)) =
        Suc (writes (memory_file m)))"
  by (auto simp add: learn_from_web_search_def Let_def save_memory_def write_file_def
      learn_search_pattern_def update_user_preferences_def store_results_file)

text \<open>
  The theorem on a payload without results, on one with an empty list, and on one with a
  result.
\<close>

theorem learn_from_web_search_no_results_witness:
  "learn_from_web_search empty_memory ''zelda'' no_results ''default'' ''t1'' (\<lambda>s. 0) =
     empty_memory \<and>
   learn_from_web_search empty_memory ''zelda'' empty_results ''default'' ''t1'' (\<lambda>s. 0) =
     empty_memory \<and>
   writes (memory_file
     (learn_from_web_search empty_memory ''zelda''
        \<lparr>w_results = Some [\<lparr>r_title = Some ''t'', r_url = None, r_content = Some ''short'',
             r_relevance_score = None, r_score = None\<rparr>],
         w_total_results = Some 1, w_error = None\<rparr> ''default'' ''t1'' (\<lambda>s. 0))) = 1"
  using learn_from_web_search_no_results
      [of no_results empty_memory "''zelda''" "''default''" "''t1''" "\<lambda>s. 0" "[]"]
    learn_from_web_search_no_results
      [of empty_results empty_memory "''zelda''" "''default''" "''t1''" "\<lambda>s. 0" "[]"]
    learn_from_web_search_no_results
      [of "\<lparr>w_results = Some [\<lparr>r_title = Some ''t'', r_url = None, r_content = Some ''short'',
             r_relevance_score = None, r_score = None\<rparr>],
         w_total_results = Some 1, w_error = None\<rparr>" empty_memory "''zelda''" "''default''" "''t1''"
        "\<lambda>s. 0"
        "[\<lparr>r_title = Some ''t'', r_url = None, r_content = Some ''short'',
             r_relevance_score = None, r_score = None\<rparr>]"]
  by (simp add: no_results_def empty_results_def empty_memory_def)

section \<open>Properties of the vector store\<close>

text \<open>\<^verbatim>\<open>str.strip()\<close> removes the no-break space as well as the ASCII white space.\<close>

lemma strip_no_break_space: "strip ('' T'' @ [char_of (160 :: nat)]) = ''T''"
  by (simp add: strip_def is_space_def Let_def)

lemma update_fresh: "k \<notin> fst ` set al \<Longrightarrow> AList.update k v al = al @ [(k, v)]"
  by (induction al) auto

lemma dup_key_enrich: "dup_key_of w c (enrich_metadata t c md) = dup_key_of w c md"
  by (simp add: dup_key_of_def enrich_metadata_def)

lemma dup_key_cong:
  "env_sha256 w' = env_sha256 w \<Longrightarrow> md_url md' = md_url md \<Longrightarrow> md_title md' = md_title md \<Longrightarrow>
   dup_key_of w' c md' = dup_key_of w c md"
  by (simp add: dup_key_of_def)

lemma add_document_duplicate:
  "dup_key_of w c md \<in> fst ` set (seen_index vs) \<Longrightarrow> add_document w vs c md doc_id = (False, vs)"
  by (simp add: add_document_def Let_def dup_key_enrich)

lemma add_document_first:
  assumes "dup_key_of w c md \<notin> fst ` set (seen_index vs)"
    and "\<not> env_add_fails w (new_doc_id w doc_id)"
    and "writable (ingested_index vs)"
    and "writable (documents vs (new_doc_id w doc_id))"
  shows "add_document w vs c md doc_id =
     (True,
      vs\<lparr>collection := collection vs @
            [(new_doc_id w doc_id, c, DocMeta (enrich_metadata (env_now w) c md))],
         ingested_index := (ingested_index vs)
            \<lparr>content := Holds (seen_index vs @
               [(dup_key_of w c md,
                 \<lparr>ix_id = new_doc_id w doc_id, ix_ingested_at = env_now w,
                  ix_title = strip (or_empty (md_title md)),
                  ix_url = strip (or_empty (md_url md))\<rparr>)]),
             writes := Suc (writes (ingested_index vs))\<rparr>,
         documents := (documents vs)(new_doc_id w doc_id :=
            (documents vs (new_doc_id w doc_id))
              \<lparr>content := Holds \<lparr>b_content = c, b_metadata = enrich_metadata (env_now w) c md\<rparr>,
               writes := Suc (writes (documents vs (new_doc_id w doc_id)))\<rparr>)\<rparr>)"
proof -
  have e: "md_title (enrich_metadata (env_now w) c md) = md_title md"
    "md_url (enrich_metadata (env_now w) c md) = md_url md"
    by (simp_all add: enrich_metadata_def)
  show ?thesis
    using assms
    by (simp add: add_document_def Let_def dup_key_enrich update_fresh write_file_def e)
qed

lemma add_document_value:
  "add_document w vs c md doc_id =
     (if dup_key_of w c md \<in> fst ` set (seen_index vs) \<or> env_add_fails w (new_doc_id w doc_id)
      then (False, vs)
      else (True,
        vs\<lparr>collection := collection vs @
              [(new_doc_id w doc_id, c, DocMeta (enrich_metadata (env_now w) c md))],
           ingested_index :=
             (if writable (ingested_index vs) then
                (ingested_index vs)
                  \<lparr>content := Holds (seen_index vs @
                     [(dup_key_of w c md,
                       \<lparr>ix_id = new_doc_id w doc_id, ix_ingested_at = env_now w,
                        ix_title = strip (or_empty (md_title md)),
                        ix_url = strip (or_empty (md_url md))\<rparr>)]),
                   writes := Suc (writes (ingested_index vs))\<rparr>
              else ingested_index vs),
           documents :=
             (if writable (documents vs (new_doc_id w doc_id)) then
                (documents vs)(new_doc_id w doc_id :=
                  (documents vs (new_doc_id w doc_id))
                    \<lparr>content := Holds \<lparr>b_content = c,
                       b_metadata = enrich_metadata (env_now w) c md\<rparr>,
                     writes := Suc (writes (documents vs (new_doc_id w doc_id)))\<rparr>)
              else documents vs)\<rparr>))"
proof -
  have e: "md_title (enrich_metadata (env_now w) c md) = md_title md"
    "md_url (enrich_metadata (env_now w) c md) = md_url md"
    by (simp_all add: enrich_metadata_def)
  show ?thesis
    by (simp add: add_document_def Let_def dup_key_enrich update_fresh write_file_def e)
qed

text \<open>
  Claim C7, as stated, fails. The first call does not return true for every document, and
  the second call does not always return false: the index file is written under a handler
  that swallows the failure, so with an index file that cannot be written the first call
  returns true and stores the document, and the second call, with the same URL, title and
  content (under another identifier), returns true again and stores the document a second
  time, the index being empty throughout; and when the backend refuses the document the
  first call returns false and stores nothing.
\<close>

theorem add_document_not_idempotent:
  "fst (add_document demo_env locked_store demo_content demo_metadata (Some ''doc_1'')) \<and>
   fst (add_document (demo_env\<lparr>env_now := ''t2''\<rparr>)
          (snd (add_document demo_env locked_store demo_content demo_metadata (Some ''doc_1'')))
          demo_content demo_metadata (Some ''doc_2'')) \<and>
   map (\<lambda>(i, doc, md). (i, doc))
     (collection (snd (add_document (demo_env\<lparr>env_now := ''t2''\<rparr>)
          (snd (add_document demo_env locked_store demo_content demo_metadata (Some ''doc_1'')))
          demo_content demo_metadata (Some ''doc_2'')))) =
     [(''doc_1'', demo_content), (''doc_2'', demo_content)] \<and>
   seen_index (snd (add_document (demo_env\<lparr>env_now := ''t2''\<rparr>)
          (snd (add_document demo_env locked_store demo_content demo_metadata (Some ''doc_1'')))
          demo_content demo_metadata (Some ''doc_2''))) = [] \<and>
   add_document (demo_env\<lparr>env_add_fails := (\<lambda>i. True)\<rparr>) demo_store demo_content demo_metadata
       (Some ''doc_1'') =
     (False, demo_store)"
  by (simp add: add_document_value locked_store_def demo_store_def demo_env_def seen_index_def
      new_doc_id_def)

text \<open>
  Claim C7, amended. The dedup key is the hash of the stripped URL, a bar and the stripped
  title, or of the first 200 characters of the content when both are empty. A call
  returns true exactly when the key is not in the index and the backend accepts the
  document; otherwise it returns false and leaves the store as it was. A call that
  returns true appends the document to the collection; it adds exactly one entry
  (identifier, ingestion time, title, URL) to the index when the index file can be
  written and leaves the index file as it was when not; it writes the backup file of the
  document when that file can be written, and touches no other backup file. A second call
  right after the first with the same URL, title and content, at any later clock reading
  and with any identifier, returns false and leaves the store (the collection, the index
  and the backups) as it was, provided the key is in the index by then: the first call
  found it there, or the first call returned true and the index file could be written.
\<close>

theorem add_document_idempotent:
  assumes "env_sha256 w' = env_sha256 w"
    and "add_document w vs c md doc_id = (added, vs1)"
    and "add_document w' vs1 c md doc_id' = (added_again, vs2)"
  shows "dup_key_of w c md =
           env_sha256 w
             (if strip (or_empty (md_url md)) \<noteq> [] \<or> strip (or_empty (md_title md)) \<noteq> []
              then strip (or_empty (md_url md)) @ ''|'' @ strip (or_empty (md_title md))
              else take 200 c) \<and>
         (added \<longleftrightarrow> dup_key_of w c md \<notin> fst ` set (seen_index vs) \<and>
            \<not> env_add_fails w (new_doc_id w doc_id)) \<and>
         (\<not> added \<longrightarrow> vs1 = vs) \<and>
         (added \<longrightarrow>
            collection vs1 = collection vs @
              [(new_doc_id w doc_id, c, DocMeta (enrich_metadata (env_now w) c md))] \<and>
            persist_directory vs1 = persist_directory vs \<and>
            (\<forall>i. i \<noteq> new_doc_id w doc_id \<longrightarrow> documents vs1 i = documents vs i)) \<and>
         (added \<and> writable (ingested_index vs) \<longrightarrow>
            seen_index vs1 = seen_index vs @
              [(dup_key_of w c md,
                \<lparr>ix_id = new_doc_id w doc_id, ix_ingested_at = env_now w,
                 ix_title = strip (or_empty (md_title md)),
                 ix_url = strip (or_empty (md_url md))\<rparr>)] \<and>
            writes (ingested_index vs1) = Suc (writes (ingested_index vs))) \<and>
         (added \<and> \<not> writable (ingested_index vs) \<longrightarrow> ingested_index vs1 = ingested_index vs) \<and>
         (added \<and> writable (documents vs (new_doc_id w doc_id)) \<longrightarrow>
            content (documents vs1 (new_doc_id w doc_id)) =
              Holds \<lparr>b_content = c, b_metadata = enrich_metadata (env_now w) c md\<rparr> \<and>
            writes (documents vs1 (new_doc_id w doc_id)) =
              Suc (writes (documents vs (new_doc_id w doc_id)))) \<and>
         (added \<and> \<not> writable (documents vs (new_doc_id w doc_id)) \<longrightarrow>
            documents vs1 = documents vs) \<and>
         (dup_key_of w c md \<in> fst ` set (seen_index vs) \<or>
          added \<and> writable (ingested_index vs) \<longrightarrow>
            \<not> added_again \<and> vs2 = vs1)"
proof -
  note first = assms(2) [unfolded add_document_value]
  have k: "dup_key_of w c md =
           env_sha256 w
             (if strip (or_empty (md_url md)) \<noteq> [] \<or> strip (or_empty (md_title md)) \<noteq> []
              then strip (or_empty (md_url md)) @ ''|'' @ strip (or_empty (md_title md))
              else take 200 c)"
    by (simp add: dup_key_of_def Let_def)
  have a: "added \<longleftrightarrow> dup_key_of w c md \<notin> fst ` set (seen_index vs) \<and>
            \<not> env_add_fails w (new_doc_id w doc_id)"
    using first by (auto split: if_splits)
  have b: "\<not> added \<longrightarrow> vs1 = vs"
    using first by (auto split: if_splits)
  have c: "added \<longrightarrow>
            collection vs1 = collection vs @
              [(new_doc_id w doc_id, c, DocMeta (enrich_metadata (env_now w) c md))] \<and>
            persist_directory vs1 = persist_directory vs \<and>
            (\<forall>i. i \<noteq> new_doc_id w doc_id \<longrightarrow> documents vs1 i = documents vs i)"
    using first by (auto split: if_splits)
  have d: "added \<and> writable (ingested_index vs) \<longrightarrow>
            seen_index vs1 = seen_index vs @
              [(dup_key_of w c md,
                \<lparr>ix_id = new_doc_id w doc_id, ix_ingested_at = env_now w,
                 ix_title = strip (or_empty (md_title md)),
                 ix_url = strip (or_empty (md_url md))\<rparr>)] \<and>
            writes (ingested_index vs1) = Suc (writes (ingested_index vs))"
    using first by (auto simp add: seen_index_def split: if_splits)
  have e: "added \<and> \<not> writable (ingested_index vs) \<longrightarrow> ingested_index vs1 = ingested_index vs"
    using first by (auto split: if_splits)
  have f: "added \<and> writable (documents vs (new_doc_id w doc_id)) \<longrightarrow>
            content (documents vs1 (new_doc_id w doc_id)) =
              Holds \<lparr>b_content = c, b_metadata = enrich_metadata (env_now w) c md\<rparr> \<and>
            writes (documents vs1 (new_doc_id w doc_id)) =
              Suc (writes (documents vs (new_doc_id w doc_id)))"
    using first by (auto split: if_splits)
  have g: "added \<and> \<not> writable (documents vs (new_doc_id w doc_id)) \<longrightarrow>
            documents vs1 = documents vs"
    using first by (auto split: if_splits)
  have same: "dup_key_of w' c md = dup_key_of w c md"
    using assms(1) by (rule dup_key_cong) simp_all
  have h: "dup_key_of w c md \<in> fst ` set (seen_index vs) \<or>
          added \<and> writable (ingested_index vs) \<longrightarrow>
            \<not> added_again \<and> vs2 = vs1"
  proof
    assume "dup_key_of w c md \<in> fst ` set (seen_index vs) \<or>
          added \<and> writable (ingested_index vs)"
    then have "dup_key_of w' c md \<in> fst ` set (seen_index vs1)"
    proof
      assume old: "dup_key_of w c md \<in> fst ` set (seen_index vs)"
      with a b have "vs1 = vs"
        by blast
      with old same show ?thesis
        by simp
    next
      assume "added \<and> writable (ingested_index vs)"
      with d same show ?thesis
        by simp
    qed
    from add_document_duplicate [OF this] assms(3) show "\<not> added_again \<and> vs2 = vs1"
      by simp
  qed
  from k a b c d e f g h show ?thesis
    by blast
qed

text \<open>
  The theorem on an empty store whose files can be written, for the document of the
  repository's own test: the first call adds it, with one index entry and one backup, and
  the second call adds nothing.
\<close>

theorem add_document_idempotent_witness:
  "fst (add_document demo_env demo_store demo_content demo_metadata None) \<and>
   length (seen_index (snd (add_document demo_env demo_store demo_content demo_metadata None))) = 1 \<and>
   length (collection (snd (add_document demo_env demo_store demo_content demo_metadata None))) = 1 \<and>
   add_document (demo_env\<lparr>env_now := ''t2''\<rparr>)
     (snd (add_document demo_env demo_store demo_content demo_metadata None))
     demo_content demo_metadata None =
     (False, snd (add_document demo_env demo_store demo_content demo_metadata None))"
proof -
  obtain added vs1 where
    f: "add_document demo_env demo_store demo_content demo_metadata None = (added, vs1)"
    by (cases "add_document demo_env demo_store demo_content demo_metadata None") auto
  obtain added_again vs2 where
    g: "add_document (demo_env\<lparr>env_now := ''t2''\<rparr>) vs1 demo_content demo_metadata None =
          (added_again, vs2)"
    by (cases "add_document (demo_env\<lparr>env_now := ''t2''\<rparr>) vs1 demo_content demo_metadata None")
      auto
  have pre: "env_sha256 (demo_env\<lparr>env_now := ''t2''\<rparr>) = env_sha256 demo_env"
    by simp
  have fresh: "dup_key_of demo_env demo_content demo_metadata \<notin> fst ` set (seen_index demo_store)"
    "\<not> env_add_fails demo_env (new_doc_id demo_env None)"
    "writable (ingested_index demo_store)"
    "seen_index demo_store = []" "collection demo_store = []"
    by (simp_all add: demo_store_def demo_env_def seen_index_def)
  note t = add_document_idempotent [OF pre f g]
  from t fresh have a: "added"
    by blast
  from t a fresh have b: "seen_index vs1 = seen_index demo_store @
      [(dup_key_of demo_env demo_content demo_metadata,
        \<lparr>ix_id = new_doc_id demo_env None, ix_ingested_at = env_now demo_env,
         ix_title = strip (or_empty (md_title demo_metadata)),
         ix_url = strip (or_empty (md_url demo_metadata))\<rparr>)]"
    by blast
  from t a have c: "collection vs1 = collection demo_store @
      [(new_doc_id demo_env None, demo_content,
        DocMeta (enrich_metadata (env_now demo_env) demo_content demo_metadata))]"
    by blast
  from t a fresh have d: "\<not> added_again \<and> vs2 = vs1"
    by blast
  from a b c d f g fresh show ?thesis
    by simp
qed

section \<open>Properties of the tools\<close>

lemma evaluate_handler:
  "evaluate_retrieval_tool w q rd =
     (case evaluate_try w q rd of
        (Inr report, calls) \<Rightarrow> (Inr report, calls)
      | (Inl e, calls) \<Rightarrow> (Inr (error_report e), calls))"
  by (simp add: evaluate_retrieval_tool_def create_evaluation_report_def error_report_def
      split: prod.splits sum.splits)

lemma evaluate_returns: "\<exists>report. fst (evaluate_retrieval_tool w q rd) = Inr report"
  by (simp add: evaluate_handler split: prod.splits sum.splits)

text \<open>
  Claim C6. The evaluation always returns a report, never an exception. For a retrieval
  result without games (the key missing or the list empty) the report is useful false,
  confidence 0, recommendation \<open>search_web\<close>, and the judging model is not called. When
  the argument cannot be parsed, when the call of the judging model raises, and whenever
  the body of the \<open>try\<close> raises an exception \<open>e\<close>, the report is useful false, confidence 0,
  recommendation \<open>search_web\<close>, with the text of \<open>e\<close> in the description.
\<close>

theorem evaluate_degrades:
  "(\<exists>report. fst (evaluate_retrieval_tool w q rd) = Inr report) \<and>
   (rd = Docs d \<and> (e_games d = None \<or> e_games d = Some []) \<longrightarrow>
      evaluate_retrieval_tool w q rd =
        (Inr \<lparr>er_useful = False,
              er_description = ''No games were retrieved from the database'',
              er_confidence = 0, er_recommendation = ''search_web''\<rparr>, 0)) \<and>
   (rd = Unparsable e \<longrightarrow>
      evaluate_retrieval_tool w q rd = (Inr (error_report e), 0)) \<and>
   (rd = Docs d \<and> e_games d = Some gs \<and> gs \<noteq> [] \<and> env_judge w q gs = Inl e \<longrightarrow>
      evaluate_retrieval_tool w q rd = (Inr (error_report e), 1)) \<and>
   (fst (evaluate_try w q rd) = Inl e \<longrightarrow>
      fst (evaluate_retrieval_tool w q rd) = Inr (error_report e)) \<and>
   er_useful (error_report e) = False \<and> er_confidence (error_report e) = 0 \<and>
   er_recommendation (error_report e) = ''search_web'' \<and>
   er_description (error_report e) = ''Error during evaluation: '' @ str_of e"
proof -
  have "rd = Docs d \<and> (e_games d = None \<or> e_games d = Some []) \<longrightarrow>
      evaluate_retrieval_tool w q rd =
        (Inr \<lparr>er_useful = False,
              er_description = ''No games were retrieved from the database'',
              er_confidence = 0, er_recommendation = ''search_web''\<rparr>, 0)"
    by (auto simp add: evaluate_handler evaluate_try_def create_evaluation_report_def)
  moreover have "rd = Unparsable e \<longrightarrow>
      evaluate_retrieval_tool w q rd = (Inr (error_report e), 0)"
    by (simp add: evaluate_handler evaluate_try_def)
  moreover have "rd = Docs d \<and> e_games d = Some gs \<and> gs \<noteq> [] \<and> env_judge w q gs = Inl e \<longrightarrow>
      evaluate_retrieval_tool w q rd = (Inr (error_report e), 1)"
    by (simp add: evaluate_handler evaluate_try_def)
  moreover have "fst (evaluate_try w q rd) = Inl e \<longrightarrow>
      fst (evaluate_retrieval_tool w q rd) = Inr (error_report e)"
    by (cases "evaluate_try w q rd") (simp add: evaluate_handler)
  ultimately show ?thesis
    using evaluate_returns [of w q rd] by (simp add: error_report_def)
qed

text \<open>
  The theorem on an empty retrieval, on an unparsable argument and on a retrieval with one
  game while the judging model is down.
\<close>

theorem evaluate_degrades_witness:
  "evaluate_retrieval_tool demo_env ''When was Mock Game released?'' (Docs (envelope_of (Some []))) =
     (Inr \<lparr>er_useful = False,
           er_description = ''No games were retrieved from the database'',
           er_confidence = 0, er_recommendation = ''search_web''\<rparr>, 0) \<and>
   evaluate_retrieval_tool demo_env ''When was Mock Game released?''
       (Unparsable (Error ''Expecting value'')) =
     (Inr \<lparr>er_useful = False,
           er_description = ''Error during evaluation: Expecting value'',
           er_confidence = 0, er_recommendation = ''search_web''\<rparr>, 0) \<and>
   evaluate_retrieval_tool demo_env ''When was Mock Game released?''
       (Docs (envelope_of (Some [mock_game]))) =
     (Inr \<lparr>er_useful = False,
           er_description = ''Error during evaluation: judge unavailable'',
           er_confidence = 0, er_recommendation = ''search_web''\<rparr>, 1)"
  using
    evaluate_degrades [of demo_env "''When was Mock Game released?''"
      "Docs (envelope_of (Some []))" "envelope_of (Some [])" "Error ''x''" "[]"]
    evaluate_degrades [of demo_env "''When was Mock Game released?''"
      "Unparsable (Error ''Expecting value'')" "envelope_of None" "Error ''Expecting value''" "[]"]
    evaluate_degrades [of demo_env "''When was Mock Game released?''"
      "Docs (envelope_of (Some [mock_game]))" "envelope_of (Some [mock_game])"
      "Error ''judge unavailable''" "[mock_game]"]
  by (simp add: envelope_of_def demo_env_def error_report_def)

lemma make_hit_no_game: "map_of (make_hit i doc distance md) ''game'' = None"
  by (cases md) (simp_all add: make_hit_def)

lemma make_hit_similarity:
  "similarity_of (make_hit i doc distance md) = Inr (1 - distance)"
  by (cases md) (simp_all add: make_hit_def similarity_of_def hit_lookup_def hit_number_def)

lemma make_hits_no_game:
  "h \<in> set (make_hits i docs distances mds) \<Longrightarrow> map_of h ''game'' = None"
  by (induction i docs distances mds rule: make_hits.induct) (auto simp add: make_hit_no_game)

lemma search_games_no_game:
  "h \<in> set (search_games w vs q n) \<Longrightarrow> map_of h ''game'' = None"
  by (auto simp add: search_games_def make_hits_no_game split: sum.splits if_splits)

lemma collect_game_fails:
  assumes "hs \<noteq> []" and "\<And>h. h \<in> set hs \<Longrightarrow> map_of h ''game'' = None"
  shows "collect (\<lambda>result. hit_lookup result ''game'') hs =
           Inl (Error ([CHR 0x27] @ ''game'' @ [CHR 0x27]))"
  using assms by (cases hs) (simp_all add: hit_lookup_def)

lemma retrieve_nonempty_is_error:
  assumes "search_games w vs q n \<noteq> []"
  shows "retrieve_game_tool w vs q n =
           error_envelope q (Error ([CHR 0x27] @ ''game'' @ [CHR 0x27]))"
proof -
  have "collect (\<lambda>result. hit_lookup result ''game'') (search_games w vs q n) =
          Inl (Error ([CHR 0x27] @ ''game'' @ [CHR 0x27]))"
    using assms search_games_no_game by (rule collect_game_fails)
  with assms show ?thesis
    by (simp add: retrieve_game_tool_def retrieve_try_def error_envelope_def)
qed

lemma retrieve_empty:
  "search_games w vs q n = [] \<Longrightarrow> retrieve_game_tool w vs q n = empty_envelope q"
  by (simp add: retrieve_game_tool_def retrieve_try_def empty_envelope_def)

lemma retrieve_backend_failure:
  "env_query w (collection vs) q n = Inl e \<Longrightarrow> retrieve_game_tool w vs q n = empty_envelope q"
  by (rule retrieve_empty) (simp add: search_games_def)

text \<open>
  Claim C9, on the code. The claim states that the confidence of the envelope is the mean
  of the similarity scores, clamped to [0, 1]. For a backend that answers with one entry
  at distance 0.2 the only similarity score is 0.8 and the stated confidence is 0.8, but
  the tool looks up the key \<open>game\<close> that no hit of \<open>search_games\<close> has, and its handler
  returns the error envelope with confidence 0 and without games. A backend that raises
  gives the envelope of an empty result, as the claim states.
\<close>

theorem retrieve_confidence_lost:
  "collect similarity_of (search_games hit_env demo_store ''Mock Game'' 5) = Inr [0.8] \<and>
   spec_confidence [0.8] = 0.8 \<and>
   retrieve_game_tool hit_env demo_store ''Mock Game'' 5 =
     \<lparr>e_games = None, e_query = ''Mock Game'', e_total_results = 0, e_confidence_score = 0,
      e_search_method = ''vector_db'', e_message = None,
      e_error = Some (''Error searching games: '' @ [CHR 0x27] @ ''game'' @ [CHR 0x27])\<rparr> \<and>
   retrieve_game_tool failing_env demo_store ''Mock Game'' 5 =
     \<lparr>e_games = Some [], e_query = ''Mock Game'', e_total_results = 0, e_confidence_score = 0,
      e_search_method = ''vector_db'',
      e_message = Some ''No games found matching the query'', e_error = None\<rparr>"
proof -
  have s: "search_games hit_env demo_store ''Mock Game'' 5 =
      [make_hit 0 ''[MockPlatform] Mock Game (2000)'' 0.2 (GameMeta mock_game)]"
    by (simp add: search_games_def hit_env_def demo_env_def)
  have a: "collect similarity_of (search_games hit_env demo_store ''Mock Game'' 5) = Inr [0.8]"
    by (simp add: s make_hit_similarity)
  have b: "spec_confidence [0.8] = 0.8"
    by (simp add: spec_confidence_def)
  have "search_games hit_env demo_store ''Mock Game'' 5 \<noteq> []"
    by (simp add: s)
  from retrieve_nonempty_is_error [OF this]
  have c: "retrieve_game_tool hit_env demo_store ''Mock Game'' 5 =
     \<lparr>e_games = None, e_query = ''Mock Game'', e_total_results = 0, e_confidence_score = 0,
      e_search_method = ''vector_db'', e_message = None,
      e_error = Some (''Error searching games: '' @ [CHR 0x27] @ ''game'' @ [CHR 0x27])\<rparr>"
    by (simp add: error_envelope_def)
  have "env_query failing_env (collection demo_store) ''Mock Game'' 5 =
      Inl (Error ''backend unavailable'')"
    by (simp add: failing_env_def demo_env_def)
  from retrieve_backend_failure [OF this]
  have d: "retrieve_game_tool failing_env demo_store ''Mock Game'' 5 =
     \<lparr>e_games = Some [], e_query = ''Mock Game'', e_total_results = 0, e_confidence_score = 0,
      e_search_method = ''vector_db'',
      e_message = Some ''No games found matching the query'', e_error = None\<rparr>"
    by (simp add: empty_envelope_def)
  from a b c d show ?thesis
    by blast
qed

section \<open>Properties of the agent\<close>

lemma error_response_value:
  "error_response w e =
     Inr \<lparr>answer = ''I encountered an error while processing your question: '' @ str_of e,
          confidence = 0, sources = [], search_method = ''error'', timestamp = env_now w\<rparr>"
  by (simp add: error_response_def make_response_def)

lemma process_query_handler:
  "process_query w tools ag q =
     (case process_try w tools ag q of
        (Inr response, ag1, calls) \<Rightarrow> (Inr response, ag1, calls)
      | (Inl e, ag1, calls) \<Rightarrow>
          (Inr \<lparr>answer = ''I encountered an error while processing your question: '' @ str_of e,
                confidence = 0, sources = [], search_method = ''error'', timestamp = env_now w\<rparr>,
           ag1, calls))"
  unfolding process_query_def error_response_value ..

lemma process_query_same_effects:
  "snd (process_query w tools ag q) = snd (process_try w tools ag q)"
  by (simp add: process_query_handler split: prod.splits sum.splits)

lemma generate_calls:
  "set (snd (generate_final_answer w q rd ev wr)) \<subseteq> {CallAnswer}"
  by (auto simp add: generate_final_answer_def Let_def split: sum.splits)

lemma persist_web_results_effects:
  "state_machine (fst (persist_web_results w ag q wr)) = state_machine ag"
  "state_files (fst (persist_web_results w ag q wr)) = state_files ag"
  "set (snd (persist_web_results w ag q wr)) \<subseteq> {CallAddDocument, CallLearnWeb}"
  by (auto simp add: persist_web_results_def split: option.splits)

lemma persist_web_results_pair:
  assumes "persist_web_results w ag q wr = (ag1, cs)"
  shows "state_machine ag1 = state_machine ag \<and> state_files ag1 = state_files ag \<and>
         set cs \<subseteq> {CallAddDocument, CallLearnWeb}"
  using persist_web_results_effects [of w ag q wr] assms by simp

lemma make_response_method:
  "make_response text c srcs method now = Inr response \<Longrightarrow>
   search_method response = method \<and> sources response = srcs \<and> answer response = text"
  by (auto simp add: make_response_def split: pyfloat.splits if_splits)

lemma generate_without_web:
  "generate_final_answer w q rd ev None = (Inr final, cs) \<Longrightarrow>
   fa_search_method final = ''vector_db''"
  by (auto simp add: generate_final_answer_def Let_def split: sum.splits)

lemma finish_query_shape:
  "(\<exists>e cs2. finish_query w ag q rd ev wr cs1 = (Inl e, ag, cs1 @ cs2) \<and>
      set cs2 \<subseteq> {CallAnswer}) \<or>
   (\<exists>response ag1 before. finish_query w ag q rd ev wr cs1 =
        (Inr response, ag1, cs1 @ before @ [CallLearnConversation, CallPersist]) \<and>
      set before \<subseteq> {CallAnswer, CallAddDocument, CallLearnWeb} \<and>
      state_machine ag1 = state_machine ag \<and>
      state_files ag1 = persist (state_machine ag) (state_files ag) \<and>
      (wr = None \<longrightarrow> search_method response = ''vector_db''))"
proof -
  obtain generated cs2 where g: "generate_final_answer w q rd ev wr = (generated, cs2)"
    by (cases "generate_final_answer w q rd ev wr") auto
  have cs2: "set cs2 \<subseteq> {CallAnswer}"
    using generate_calls [of w q rd ev wr] g by simp
  show ?thesis
  proof (cases generated)
    case (Inl e)
    with g have "finish_query w ag q rd ev wr cs1 = (Inl e, ag, cs1 @ cs2)"
      by (simp add: finish_query_def)
    with cs2 show ?thesis by blast
  next
    case fin: (Inr final)
    show ?thesis
    proof (cases "make_response (fa_answer final) (fa_confidence final) (fa_sources final)
        (fa_search_method final) (env_now w)")
      case (Inl e)
      with g fin have "finish_query w ag q rd ev wr cs1 = (Inl e, ag, cs1 @ cs2)"
        by (simp add: finish_query_def)
      with cs2 show ?thesis by blast
    next
      case resp: (Inr response)
      obtain ag1 cs3 where p: "persist_web_results w ag q wr = (ag1, cs3)"
        by (cases "persist_web_results w ag q wr") auto
      note pw = persist_web_results_pair [OF p]
      let ?ag = "ag1\<lparr>advanced_memory_system :=
            learn_from_conversation (advanced_memory_system ag1) q (fa_answer final)
              ''default'' (env_now w),
          conversation_history := conversation_history ag1 @
            [(q, fa_answer final, env_now w)],
          state_files := persist (state_machine ag1) (state_files ag1)\<rparr>"
      from g fin resp p
      have "finish_query w ag q rd ev wr cs1 =
          (Inr response, ?ag, cs1 @ (cs2 @ cs3) @ [CallLearnConversation, CallPersist])"
        by (simp add: finish_query_def)
      moreover have "set (cs2 @ cs3) \<subseteq> {CallAnswer, CallAddDocument, CallLearnWeb}"
        using cs2 pw by auto
      moreover have "state_machine ?ag = state_machine ag"
        "state_files ?ag = persist (state_machine ag) (state_files ag)"
        using pw by simp_all
      moreover have "wr = None \<longrightarrow> search_method response = ''vector_db''"
        using g fin generate_without_web [of w q rd ev final cs2] make_response_method [OF resp]
        by auto
      ultimately show ?thesis by blast
    qed
  qed
qed

lemma process_try_shape:
  "(\<exists>e calls. process_try w tools ag q = (Inl e, ag, calls) \<and>
      set calls \<subseteq> {CallRetrieve, CallEvaluate, CallWebSearch, CallAnswer}) \<or>
   (\<exists>response ag1 before. process_try w tools ag q =
        (Inr response, ag1, before @ [CallLearnConversation, CallPersist]) \<and>
      set before \<subseteq> {CallRetrieve, CallEvaluate, CallWebSearch, CallAnswer, CallAddDocument,
        CallLearnWeb} \<and>
      state_machine ag1 = state_machine ag \<and>
      state_files ag1 = persist (state_machine ag) (state_files ag))"
proof -
  have finish: ?thesis
    if t: "process_try w tools ag q = finish_query w ag q rd ev wr cs1"
      and c: "set cs1 \<subseteq> {CallRetrieve, CallEvaluate, CallWebSearch}" for rd ev wr cs1
    using finish_query_shape [of w ag q rd ev wr cs1]
  proof
    assume "\<exists>e cs2. finish_query w ag q rd ev wr cs1 = (Inl e, ag, cs1 @ cs2) \<and>
      set cs2 \<subseteq> {CallAnswer}"
    then obtain e cs2 where "process_try w tools ag q = (Inl e, ag, cs1 @ cs2)"
      "set cs2 \<subseteq> {CallAnswer}"
      using t by auto
    moreover from this c
    have "set (cs1 @ cs2) \<subseteq> {CallRetrieve, CallEvaluate, CallWebSearch, CallAnswer}"
      by auto
    ultimately show ?thesis by blast
  next
    assume "\<exists>response ag1 before. finish_query w ag q rd ev wr cs1 =
        (Inr response, ag1, cs1 @ before @ [CallLearnConversation, CallPersist]) \<and>
      set before \<subseteq> {CallAnswer, CallAddDocument, CallLearnWeb} \<and>
      state_machine ag1 = state_machine ag \<and>
      state_files ag1 = persist (state_machine ag) (state_files ag) \<and>
      (wr = None \<longrightarrow> search_method response = ''vector_db'')"
    then obtain response ag1 before where
      "process_try w tools ag q =
         (Inr response, ag1, (cs1 @ before) @ [CallLearnConversation, CallPersist])"
      "set before \<subseteq> {CallAnswer, CallAddDocument, CallLearnWeb}"
      "state_machine ag1 = state_machine ag"
      "state_files ag1 = persist (state_machine ag) (state_files ag)"
      using t by auto
    moreover from this c
    have "set (cs1 @ before) \<subseteq> {CallRetrieve, CallEvaluate, CallWebSearch, CallAnswer,
        CallAddDocument, CallLearnWeb}"
      by auto
    ultimately show ?thesis by blast
  qed
  show ?thesis
  proof (cases "t_retrieve tools (vector_store ag) q 5")
    case (Inl e)
    then show ?thesis by (simp add: process_try_def)
  next
    case r: (Inr rd)
    show ?thesis
    proof (cases "t_evaluate tools q (Docs rd)")
      case (Inl e)
      with r show ?thesis by (simp add: process_try_def)
    next
      case ev: (Inr ev)
      show ?thesis
      proof (cases "use_web_search ev")
        case False
        with r ev have "process_try w tools ag q =
            finish_query w ag q rd ev None [CallRetrieve, CallEvaluate]"
          by (simp add: process_try_def)
        then show ?thesis by (rule finish) simp
      next
        case True
        show ?thesis
        proof (cases "t_web tools q 3")
          case (Inl e)
          with r ev True show ?thesis by (simp add: process_try_def)
        next
          case (Inr payload)
          with r ev True have "process_try w tools ag q =
              finish_query w ag q rd ev (Some payload) [CallRetrieve, CallEvaluate, CallWebSearch]"
            by (simp add: process_try_def)
          then show ?thesis by (rule finish) simp
        qed
      qed
    qed
  qed
qed


lemma demo_confidence:
  "extract_confidence answering_env (Some ''Mock Game was released in 2000. Confidence: 0.9'') =
     Finite 0.9"
  by (simp add: extract_confidence_def answering_env_def demo_env_def lower_def lower_char_def
      strip_def split_def is_space_def Let_def)

lemma answering_env_fields:
  "env_now answering_env = ''t1''"
  "env_answer answering_env =
     (\<lambda>q gs ws d. Inr (Some ''Mock Game was released in 2000. Confidence: 0.9''))"
  by (simp_all add: answering_env_def demo_env_def)

lemma demo_run_local:
  "process_try answering_env (mock_tools True 0.9) demo_agent ''When was Mock Game released?'' =
     (Inr \<lparr>answer = ''Mock Game was released in 2000. Confidence: 0.9'', confidence = 0.9,
           sources = [''vector_db''], search_method = ''vector_db'', timestamp = ''t1''\<rparr>,
      demo_agent
        \<lparr>advanced_memory_system :=
           learn_from_conversation empty_memory ''When was Mock Game released?''
             ''Mock Game was released in 2000. Confidence: 0.9'' ''default'' ''t1'',
         conversation_history :=
           [(''When was Mock Game released?'',
             ''Mock Game was released in 2000. Confidence: 0.9'', ''t1'')],
         state_files := persist demo_machine demo_disk\<rparr>,
      [CallRetrieve, CallEvaluate, CallAnswer, CallLearnConversation, CallPersist])"
  by (simp add: process_try_def finish_query_def mock_tools_def use_web_search_def confidence_threshold_def
      generate_final_answer_def envelope_of_def Let_def demo_confidence make_response_def
      or_empty_def answering_env_fields persist_web_results_def demo_agent_def)

lemma demo_run_web:
  "fst (process_try answering_env (mock_tools False 0.3) demo_agent ''When was Mock Game released?'') =
     Inr \<lparr>answer = ''Mock Game was released in 2000. Confidence: 0.9'', confidence = 0.9,
          sources = [''vector_db'', ''web_search''], search_method = ''combined'',
          timestamp = ''t1''\<rparr>"
  "snd (snd (process_try answering_env (mock_tools False 0.3) demo_agent
     ''When was Mock Game released?'')) =
     [CallRetrieve, CallEvaluate, CallWebSearch, CallAnswer, CallAddDocument, CallLearnWeb,
      CallLearnConversation, CallPersist]"
  by (simp_all add: process_try_def finish_query_def mock_tools_def use_web_search_def confidence_threshold_def
      generate_final_answer_def envelope_of_def Let_def demo_confidence make_response_def
      or_empty_def answering_env_fields persist_web_results_def demo_agent_def mock_page_def
      web_context_def)

text \<open>
  Claim C2. \<open>process_query\<close> never raises: for every environment, toolset, agent and
  question it returns a response. Whenever the body of its \<open>try\<close> raises an exception \<open>e\<close>
  (so when the retrieval tool, the evaluation tool, the web search tool or the synthesis
  of the answer raises), the response has confidence 0, no sources, the search method
  \<open>error\<close> and an answer that holds the text of \<open>e\<close>.
\<close>

theorem process_query_never_raises:
  "(\<exists>response. fst (process_query w tools ag q) = Inr response) \<and>
   (fst (process_try w tools ag q) = Inl e \<longrightarrow>
      fst (process_query w tools ag q) =
        Inr \<lparr>answer = ''I encountered an error while processing your question: '' @ str_of e,
             confidence = 0, sources = [], search_method = ''error'',
             timestamp = env_now w\<rparr>) \<and>
   (t_retrieve tools (vector_store ag) q 5 = Inl e \<longrightarrow>
      fst (process_try w tools ag q) = Inl e) \<and>
   (t_retrieve tools (vector_store ag) q 5 = Inr rd \<and> t_evaluate tools q (Docs rd) = Inl e \<longrightarrow>
      fst (process_try w tools ag q) = Inl e) \<and>
   (t_retrieve tools (vector_store ag) q 5 = Inr rd \<and> t_evaluate tools q (Docs rd) = Inr ev \<and>
    use_web_search ev \<and> t_web tools q 3 = Inl e \<longrightarrow>
      fst (process_try w tools ag q) = Inl e) \<and>
   (t_retrieve tools (vector_store ag) q 5 = Inr rd \<and> t_evaluate tools q (Docs rd) = Inr ev \<and>
    \<not> use_web_search ev \<and> fst (generate_final_answer w q rd ev None) = Inl e \<longrightarrow>
      fst (process_try w tools ag q) = Inl e)"
proof -
  have "\<exists>response. fst (process_query w tools ag q) = Inr response"
    by (cases "process_try w tools ag q")
      (auto simp add: process_query_handler split: sum.splits)
  moreover have "fst (process_try w tools ag q) = Inl e \<longrightarrow>
      fst (process_query w tools ag q) =
        Inr \<lparr>answer = ''I encountered an error while processing your question: '' @ str_of e,
             confidence = 0, sources = [], search_method = ''error'',
             timestamp = env_now w\<rparr>"
    by (cases "process_try w tools ag q") (auto simp add: process_query_handler)
  moreover have "t_retrieve tools (vector_store ag) q 5 = Inl e \<longrightarrow>
      fst (process_try w tools ag q) = Inl e"
    by (simp add: process_try_def)
  moreover have "t_retrieve tools (vector_store ag) q 5 = Inr rd \<and>
      t_evaluate tools q (Docs rd) = Inl e \<longrightarrow> fst (process_try w tools ag q) = Inl e"
    by (simp add: process_try_def)
  moreover have "t_retrieve tools (vector_store ag) q 5 = Inr rd \<and>
      t_evaluate tools q (Docs rd) = Inr ev \<and> use_web_search ev \<and> t_web tools q 3 = Inl e \<longrightarrow>
      fst (process_try w tools ag q) = Inl e"
    by (simp add: process_try_def)
  moreover have "t_retrieve tools (vector_store ag) q 5 = Inr rd \<and>
      t_evaluate tools q (Docs rd) = Inr ev \<and> \<not> use_web_search ev \<and>
      fst (generate_final_answer w q rd ev None) = Inl e \<longrightarrow>
      fst (process_try w tools ag q) = Inl e"
    by (cases "generate_final_answer w q rd ev None") (simp add: process_try_def finish_query_def)
  ultimately show ?thesis
    by blast
qed

text \<open>
  The theorem on agents whose retrieval tool, evaluation tool and web search tool raise,
  and on one whose answering model is down.
\<close>

theorem process_query_never_raises_witness:
  "fst (process_query demo_env broken_tools demo_agent ''When was Mock Game released?'') =
     Inr \<lparr>answer = ''I encountered an error while processing your question: boom'',
          confidence = 0, sources = [], search_method = ''error'', timestamp = ''t1''\<rparr> \<and>
   fst (process_query demo_env judge_broken_tools demo_agent ''When was Mock Game released?'') =
     Inr \<lparr>answer = ''I encountered an error while processing your question: no judge'',
          confidence = 0, sources = [], search_method = ''error'', timestamp = ''t1''\<rparr> \<and>
   fst (process_query demo_env web_broken_tools demo_agent ''When was Mock Game released?'') =
     Inr \<lparr>answer = ''I encountered an error while processing your question: no web'',
          confidence = 0, sources = [], search_method = ''error'', timestamp = ''t1''\<rparr> \<and>
   fst (process_query demo_env (mock_tools True 0.9) demo_agent ''When was Mock Game released?'') =
     Inr \<lparr>answer = ''I encountered an error while processing your question: model unavailable'',
          confidence = 0, sources = [], search_method = ''error'', timestamp = ''t1''\<rparr>"
proof -
  let ?q = "''When was Mock Game released?''"
  let ?rd = "(envelope_of (Some [mock_game]))\<lparr>e_confidence_score := 0.8\<rparr>"
  let ?ev = "\<lambda>useful c. \<lparr>re_useful = Some useful, re_description = Some ''Mock evaluation'',
       re_confidence = Some c, re_recommendation = Some ''proceed_with_answer''\<rparr>"
  have a: "t_retrieve broken_tools (vector_store demo_agent) ?q 5 = Inl (Error ''boom'')"
    by (simp add: broken_tools_def)
  have b: "t_retrieve judge_broken_tools (vector_store demo_agent) ?q 5 = Inr ?rd"
    "t_evaluate judge_broken_tools ?q (Docs ?rd) = Inl (Error ''no judge'')"
    by (simp_all add: judge_broken_tools_def mock_tools_def)
  have c: "t_retrieve web_broken_tools (vector_store demo_agent) ?q 5 = Inr ?rd"
    "t_evaluate web_broken_tools ?q (Docs ?rd) = Inr (?ev False 0.3)"
    "use_web_search (?ev False 0.3)"
    "t_web web_broken_tools ?q 3 = Inl (Error ''no web'')"
    by (simp_all add: web_broken_tools_def mock_tools_def use_web_search_def)
  have d: "t_retrieve (mock_tools True 0.9) (vector_store demo_agent) ?q 5 = Inr ?rd"
    "t_evaluate (mock_tools True 0.9) ?q (Docs ?rd) = Inr (?ev True 0.9)"
    "\<not> use_web_search (?ev True 0.9)"
    "fst (generate_final_answer demo_env ?q ?rd (?ev True 0.9) None) =
       Inl (Error ''model unavailable'')"
    by (simp_all add: mock_tools_def use_web_search_def confidence_threshold_def
        generate_final_answer_def envelope_of_def Let_def demo_env_def or_empty_def)
  from process_query_never_raises
      [of demo_env broken_tools demo_agent ?q "Error ''boom''" ?rd "?ev True 0.9"] a
  have 1: "fst (process_query demo_env broken_tools demo_agent ?q) =
     Inr \<lparr>answer = ''I encountered an error while processing your question: boom'',
          confidence = 0, sources = [], search_method = ''error'', timestamp = ''t1''\<rparr>"
    by (simp add: demo_env_def)
  from process_query_never_raises
      [of demo_env judge_broken_tools demo_agent ?q "Error ''no judge''" ?rd "?ev True 0.9"] b
  have 2: "fst (process_query demo_env judge_broken_tools demo_agent ?q) =
     Inr \<lparr>answer = ''I encountered an error while processing your question: no judge'',
          confidence = 0, sources = [], search_method = ''error'', timestamp = ''t1''\<rparr>"
    by (simp add: demo_env_def)
  from process_query_never_raises
      [of demo_env web_broken_tools demo_agent ?q "Error ''no web''" ?rd "?ev False 0.3"] c
  have 3: "fst (process_query demo_env web_broken_tools demo_agent ?q) =
     Inr \<lparr>answer = ''I encountered an error while processing your question: no web'',
          confidence = 0, sources = [], search_method = ''error'', timestamp = ''t1''\<rparr>"
    by (simp add: demo_env_def)
  from process_query_never_raises
      [of demo_env "mock_tools True 0.9" demo_agent ?q "Error ''model unavailable''" ?rd
        "?ev True 0.9"] d
  have 4: "fst (process_query demo_env (mock_tools True 0.9) demo_agent ?q) =
     Inr \<lparr>answer = ''I encountered an error while processing your question: model unavailable'',
          confidence = 0, sources = [], search_method = ''error'', timestamp = ''t1''\<rparr>"
    by (simp add: demo_env_def)
  from 1 2 3 4 show ?thesis
    by blast
qed







text \<open>
  Claim C5, as stated, fails. The claim states that \<open>process_query\<close> drives the state
  machine through retrieving, evaluating, web search, answering and back to idle. On the
  scenario of the specification, without and with the web search, the calls of
  \<open>process_query\<close> hold no transition: the machine is idle with its old transition time
  before and after, and the state file written at the end says so.
\<close>

theorem state_machine_not_driven:
  "snd (snd (process_query answering_env (mock_tools True 0.9) demo_agent
      ''When was Mock Game released?'')) =
     [CallRetrieve, CallEvaluate, CallAnswer, CallLearnConversation, CallPersist] \<and>
   snd (snd (process_query answering_env (mock_tools False 0.3) demo_agent
      ''When was Mock Game released?'')) =
     [CallRetrieve, CallEvaluate, CallWebSearch, CallAnswer, CallAddDocument, CallLearnWeb,
      CallLearnConversation, CallPersist] \<and>
   state_machine demo_agent = demo_machine \<and>
   state_machine (fst (snd (process_query answering_env (mock_tools True 0.9) demo_agent
      ''When was Mock Game released?''))) = demo_machine \<and>
   state demo_machine = IDLE \<and> last_transition_time demo_machine = ''t0'' \<and>
   content (state_files (fst (snd (process_query answering_env (mock_tools True 0.9) demo_agent
      ''When was Mock Game released?''))) ''state.json'') =
     Holds \<lparr>doc_state = ''idle'', doc_last_transition_time = ''t0''\<rparr>"
proof -
  have "snd (process_query answering_env (mock_tools True 0.9) demo_agent
      ''When was Mock Game released?'') =
    (demo_agent
        \<lparr>advanced_memory_system :=
           learn_from_conversation empty_memory ''When was Mock Game released?''
             ''Mock Game was released in 2000. Confidence: 0.9'' ''default'' ''t1'',
         conversation_history :=
           [(''When was Mock Game released?'',
             ''Mock Game was released in 2000. Confidence: 0.9'', ''t1'')],
         state_files := persist demo_machine demo_disk\<rparr>,
      [CallRetrieve, CallEvaluate, CallAnswer, CallLearnConversation, CallPersist])"
    by (simp add: process_query_same_effects demo_run_local)
  moreover have "content (persist demo_machine demo_disk ''state.json'') =
      Holds \<lparr>doc_state = ''idle'', doc_last_transition_time = ''t0''\<rparr>"
    by (simp add: persist_def persist_inner_def demo_machine_def demo_disk_def init_machine_def
        write_file_def)
  moreover have "snd (snd (process_query answering_env (mock_tools False 0.3) demo_agent
      ''When was Mock Game released?'')) =
     [CallRetrieve, CallEvaluate, CallWebSearch, CallAnswer, CallAddDocument, CallLearnWeb,
      CallLearnConversation, CallPersist]"
    by (simp add: process_query_same_effects demo_run_web)
  ultimately show ?thesis
    by (simp add: demo_agent_def demo_machine_def init_machine_def)
qed

text \<open>
  Claim C5, amended. \<open>process_query\<close> makes no transition of the state machine: the
  machine is the same after the call. When the pipeline does not fail, the last step of
  the call is the one forced persist of that machine; when it fails, the agent and the
  state file are as before.
\<close>

theorem process_query_machine_untouched:
  assumes "process_query w tools ag q = (result, ag1, calls)"
  shows "(\<forall>s. CallTransition s \<notin> set calls) \<and>
         state_machine ag1 = state_machine ag \<and>
         (if \<exists>e. fst (process_try w tools ag q) = Inl e
          then ag1 = ag \<and> CallPersist \<notin> set calls
          else state_files ag1 = persist (state_machine ag) (state_files ag) \<and>
               (\<exists>before. calls = before @ [CallPersist] \<and> CallPersist \<notin> set before))"
proof -
  have same: "snd (process_try w tools ag q) = (ag1, calls)"
    using process_query_same_effects [of w tools ag q] assms by simp
  from process_try_shape [of w tools ag q] show ?thesis
  proof
    assume "\<exists>e cs. process_try w tools ag q = (Inl e, ag, cs) \<and>
      set cs \<subseteq> {CallRetrieve, CallEvaluate, CallWebSearch, CallAnswer}"
    then obtain e cs where t: "process_try w tools ag q = (Inl e, ag, cs)"
      and cs: "set cs \<subseteq> {CallRetrieve, CallEvaluate, CallWebSearch, CallAnswer}"
      by blast
    from t same have "ag1 = ag" "calls = cs"
      by simp_all
    with t cs show ?thesis
      by auto
  next
    assume "\<exists>response ag2 before. process_try w tools ag q =
        (Inr response, ag2, before @ [CallLearnConversation, CallPersist]) \<and>
      set before \<subseteq> {CallRetrieve, CallEvaluate, CallWebSearch, CallAnswer, CallAddDocument,
        CallLearnWeb} \<and>
      state_machine ag2 = state_machine ag \<and>
      state_files ag2 = persist (state_machine ag) (state_files ag)"
    then obtain response ag2 before where
      t: "process_try w tools ag q =
        (Inr response, ag2, before @ [CallLearnConversation, CallPersist])"
      and b: "set before \<subseteq> {CallRetrieve, CallEvaluate, CallWebSearch, CallAnswer,
        CallAddDocument, CallLearnWeb}"
      and m: "state_machine ag2 = state_machine ag"
        "state_files ag2 = persist (state_machine ag) (state_files ag)"
      by blast
    from t same have eq: "ag1 = ag2" "calls = (before @ [CallLearnConversation]) @ [CallPersist]"
      by simp_all
    have "CallPersist \<notin> set (before @ [CallLearnConversation])"
      using b by auto
    with eq(2) have last: "\<exists>bf. calls = bf @ [CallPersist] \<and> CallPersist \<notin> set bf"
      by blast
    have "\<forall>s. CallTransition s \<notin> set calls"
      using b eq(2) by auto
    with t eq(1) m last show ?thesis
      by simp
  qed
qed

text \<open>The amended claim on a run that succeeds and on a run whose retrieval raises.\<close>

theorem process_query_machine_untouched_witness:
  "state_machine (fst (snd (process_query answering_env (mock_tools True 0.9) demo_agent
      ''When was Mock Game released?''))) = state_machine demo_agent \<and>
   state_files (fst (snd (process_query answering_env (mock_tools True 0.9) demo_agent
      ''When was Mock Game released?''))) = persist demo_machine demo_disk \<and>
   fst (snd (process_query demo_env broken_tools demo_agent ''When was Mock Game released?'')) =
     demo_agent \<and>
   CallPersist \<notin> set (snd (snd (process_query demo_env broken_tools demo_agent
      ''When was Mock Game released?'')))"
proof -
  let ?q = "''When was Mock Game released?''"
  have pair: "process_query w tools demo_agent ?q =
      (fst (process_query w tools demo_agent ?q),
       fst (snd (process_query w tools demo_agent ?q)),
       snd (snd (process_query w tools demo_agent ?q)))" for w tools
    by simp
  have ok: "\<not> (\<exists>e. fst (process_try answering_env (mock_tools True 0.9) demo_agent ?q) = Inl e)"
    by (simp add: demo_run_local)
  have bad: "\<exists>e. fst (process_try demo_env broken_tools demo_agent ?q) = Inl e"
    by (simp add: process_try_def broken_tools_def)
  from process_query_machine_untouched [OF pair, of answering_env "mock_tools True 0.9"]
    process_query_machine_untouched [OF pair, of demo_env broken_tools] ok bad
  show ?thesis
    by (simp add: demo_agent_def)
qed

lemma search_method_with_web:
  assumes "w_results payload = Some rs" and "rs \<noteq> []"
    and "fst (generate_final_answer w q rd ev (Some payload)) = Inr final"
  shows "fa_search_method final = ''combined''"
  using assms
  by (auto simp add: generate_final_answer_def Let_def split: sum.splits)

text \<open>
  Claim C4, on the code. The claim states the search method \<open>web_search\<close> when only web
  results contributed. For a retrieval without games and one web result the sources are
  \<open>web_search\<close> alone, but the search method is \<open>combined\<close>: the sources list is tested
  after \<open>web_search\<close> was appended to it, so it is never empty there.
\<close>

theorem web_only_is_combined:
  "fst (generate_final_answer answering_env ''When was Mock Game released?''
          (envelope_of (Some []))
          \<lparr>re_useful = Some False, re_description = Some ''No games were retrieved'',
           re_confidence = Some 0, re_recommendation = Some ''search_web''\<rparr> web_only) =
     Inr \<lparr>fa_answer = ''Mock Game was released in 2000. Confidence: 0.9'',
          fa_confidence = Finite 0.9, fa_sources = [''web_search''],
          fa_search_method = ''combined''\<rparr>"
  by (simp add: generate_final_answer_def web_only_def envelope_of_def Let_def mock_page_def
      web_context_def answering_env_fields demo_confidence or_empty_def)

end
